theory Spec2Isabelle
  imports Complex_Main
begin

section \<open>Data model\<close>

text \<open>
  One element of a frame's \<^verbatim>\<open>detections\<close> array. The program reads \<^verbatim>\<open>confidence\<close>
  only; JavaScript numbers are idealised as rationals.
\<close>

record detection =
  class_name :: string
  confidence :: rat

text \<open>
  The object that \<^verbatim>\<open>JSON.parse\<close> returns for one event, as the fields the program
  reads from it. A field the payload does not carry has the falsy value the program
  would see (\<^verbatim>\<open>undefined\<close>): \<open>False\<close> for \<^verbatim>\<open>done\<close> and \<^verbatim>\<open>has_fire\<close>, the empty
  string for \<^verbatim>\<open>error\<close>.
\<close>

record frameData =
  done_field :: bool
  error_field :: string
  frame :: nat
  total_frames :: nat
  has_fire :: bool
  detections :: "detection list"

section \<open>services/api.js: detectFireSmokeStreaming\<close>

subsection \<open>Strings\<close>

definition startsWith :: "string \<Rightarrow> string \<Rightarrow> bool" where
  "startsWith s p = (take (length p) s = p)"

definition substring :: "string \<Rightarrow> nat \<Rightarrow> string" where
  "substring s n = drop n s"

text \<open>
  \<^verbatim>\<open>buffer.split('\n\n')\<close>: the pieces between the occurrences of two line feeds,
  found from left to right without overlap. The result is never empty: a text
  without the separator is its own single piece.
\<close>

fun split_nn :: "string \<Rightarrow> string list" where
  "split_nn [] = [[]]"
| "split_nn [c] = [[c]]"
| "split_nn (c # d # cs) =
     (if c = CHR 0x0A \<and> d = CHR 0x0A then [] # split_nn cs
      else (case split_nn (d # cs) of
              [] \<Rightarrow> [[c]]
            | x # xs \<Rightarrow> (c # x) # xs))"

text \<open>\<^verbatim>\<open>events.pop()\<close>: the last element (\<^verbatim>\<open>undefined\<close> on an empty array) and the array without it.\<close>

definition pop :: "'a list \<Rightarrow> 'a option \<times> 'a list" where
  "pop xs = (if xs = [] then (None, []) else (Some (last xs), butlast xs))"

subsection \<open>Callbacks\<close>

text \<open>
  The three callbacks act on the caller's state \<open>'s\<close>. Each is optional
  (\<^verbatim>\<open>onComplete && onComplete()\<close>).
\<close>

record 's callbacks =
  onFrameDetection :: "(frameData \<Rightarrow> 's \<Rightarrow> 's) option"
  onComplete :: "('s \<Rightarrow> 's) option"
  onError :: "(string \<Rightarrow> 's \<Rightarrow> 's) option"

definition call_onFrameDetection :: "'s callbacks \<Rightarrow> frameData \<Rightarrow> 's \<Rightarrow> 's" where
  "call_onFrameDetection cb fd s = (case onFrameDetection cb of None \<Rightarrow> s | Some f \<Rightarrow> f fd s)"

definition call_onComplete :: "'s callbacks \<Rightarrow> 's \<Rightarrow> 's" where
  "call_onComplete cb s = (case onComplete cb of None \<Rightarrow> s | Some f \<Rightarrow> f s)"

definition call_onError :: "'s callbacks \<Rightarrow> string \<Rightarrow> 's \<Rightarrow> 's" where
  "call_onError cb msg s = (case onError cb of None \<Rightarrow> s | Some f \<Rightarrow> f msg s)"

subsection \<open>The read loop\<close>

text \<open>
  The body of \<^verbatim>\<open>for (const event of events)\<close>. \<open>parse\<close> stands for \<^verbatim>\<open>JSON.parse\<close>,
  which is the platform's: \<open>None\<close> when it throws, or gives \<^verbatim>\<open>null\<close>, whose fields
  cannot be read (the \<^verbatim>\<open>catch\<close> logs and goes on). Neither sentinel leaves the loop.
\<close>

definition process_event ::
  "(string \<Rightarrow> frameData option) \<Rightarrow> 's callbacks \<Rightarrow> string \<Rightarrow> 's \<Rightarrow> 's" where
  "process_event parse cb event s =
     (if startsWith event ''data: '' then
        (let data = substring event 6 in
         case parse data of
           None \<Rightarrow> s
         | Some fd \<Rightarrow>
             if done_field fd then call_onComplete cb s
             else if error_field fd \<noteq> [] then call_onError cb (error_field fd) s
             else call_onFrameDetection cb fd s)
      else s)"

text \<open>How the response body ends: the reader reports \<^verbatim>\<open>done\<close>, or a read rejects.\<close>

datatype body_end = EndOfStream | ReadFailure string

text \<open>
  \<^verbatim>\<open>while (true)\<close> over the reads of the body. The result is the error that left the
  loop, if any, and the caller's state.
\<close>

fun read_loop ::
  "(string \<Rightarrow> frameData option) \<Rightarrow> 's callbacks \<Rightarrow> string list \<Rightarrow> body_end \<Rightarrow>
   string \<Rightarrow> 's \<Rightarrow> string option \<times> 's" where
  "read_loop parse cb [] EndOfStream buffer s = (None, call_onComplete cb s)"
| "read_loop parse cb [] (ReadFailure msg) buffer s = (Some msg, s)"
| "read_loop parse cb (chunk # rest) e buffer s =
     (let buffer1 = buffer @ chunk;
          (last_event, events) = pop (split_nn buffer1);
          buffer2 = (case last_event of None \<Rightarrow> [] | Some b \<Rightarrow> b)
      in read_loop parse cb rest e buffer2 (fold (process_event parse cb) events s))"


subsection \<open>The function\<close>

text \<open>Decimal text of a natural number, as a template literal prints an integer.\<close>

definition digit_char :: "nat \<Rightarrow> char" where
  "digit_char d = ''0123456789'' ! (d mod 10)"

function show_nat :: "nat \<Rightarrow> string" where
  "show_nat n = (if n < 10 then [digit_char n] else show_nat (n div 10) @ [digit_char (n mod 10)])"
  by pat_completeness auto
termination
  by (relation "measure id") auto

declare show_nat.simps [simp del]

text \<open>
  What \<^verbatim>\<open>fetch\<close> gives: a rejection (network failure), or a response with its
  \<^verbatim>\<open>ok\<close> flag, its status, and the body as the texts of the successive reads
  (each already decoded by the streaming \<^verbatim>\<open>TextDecoder\<close>) and the way it ends.
\<close>

datatype fetch_result =
  FetchRejected string
| Response bool nat "string list" body_end

datatype outcome = Resolved | Rejected string

text \<open>
  The whole call: a failure of the request, a status that is not ok, and a failed
  read all reach the outer \<^verbatim>\<open>catch\<close>, which reports through \<^verbatim>\<open>onError\<close> and
  rethrows.
\<close>

definition detectFireSmokeStreaming ::
  "(string \<Rightarrow> frameData option) \<Rightarrow> 's callbacks \<Rightarrow> fetch_result \<Rightarrow> 's \<Rightarrow> outcome \<times> 's" where
  "detectFireSmokeStreaming parse cb res s =
     (case res of
        FetchRejected msg \<Rightarrow> (Rejected msg, call_onError cb msg s)
      | Response ok status chunks e \<Rightarrow>
          if \<not> ok then
            (let msg = ''HTTP error! status: '' @ show_nat status
             in (Rejected msg, call_onError cb msg s))
          else
            (case read_loop parse cb chunks e [] s of
               (None, s') \<Rightarrow> (Resolved, s')
             | (Some msg, s') \<Rightarrow> (Rejected msg, call_onError cb msg s')))"

text \<open>The callbacks that only record, in order, what the decoder delivers.\<close>

datatype delivery = FrameDelivered frameData | Completed | ErrorSurfaced string

definition recording :: "delivery list callbacks" where
  "recording =
     \<lparr> onFrameDetection = Some (\<lambda>fd log. log @ [FrameDelivered fd]),
       onComplete = Some (\<lambda>log. log @ [Completed]),
       onError = Some (\<lambda>msg log. log @ [ErrorSurfaced msg]) \<rparr>"

definition deliveries :: "(string \<Rightarrow> frameData option) \<Rightarrow> fetch_result \<Rightarrow> delivery list" where
  "deliveries parse res = snd (detectFireSmokeStreaming parse recording res [])"

text \<open>How the loop ends, once every read has been consumed.\<close>

definition finish :: "'s callbacks \<Rightarrow> body_end \<Rightarrow> 's \<Rightarrow> string option \<times> 's" where
  "finish cb e s = (case e of EndOfStream \<Rightarrow> (None, call_onComplete cb s) | ReadFailure msg \<Rightarrow> (Some msg, s))"

section \<open>App.jsx: the alert orchestrator\<close>

subsection \<open>State, platform and effects\<close>

record alert =
  alert_id :: "string option"
  message :: string
  details :: string
  severity :: string
  timestamp :: string
  frameNumber :: "nat option"
  source :: "string option"

text \<open>The \<^verbatim>\<open>details\<close> object of a history item, one shape per place that builds it.\<close>

datatype history_details =
  StreamingDetails "detection list" nat nat "nat option" rat
| FireSmokeDetails "detection list option" nat rat
| SatelliteDetails "rat option" string
| WebcamDetails string string

record historyItem =
  item_id :: string
  item_type :: string
  filename :: string
  item_timestamp :: string
  detected :: bool
  item_details :: history_details

record upload =
  file_name :: string
  file_type :: string

text \<open>The response of the two single-shot endpoints; a field may be missing.\<close>

record batch_result =
  result_detections :: "detection list option"
  wildfire :: "rat option"

datatype detection_result =
  StreamingResult "detection list" nat "nat option"
| BatchResult batch_result

datatype tab = FireSmokeTab | SatelliteTab | LiveCameraTab

datatype permission = Granted | Denied | Default

text \<open>
  What the program asks of the browser. The clock, the random suffix and the locale text
  are indexed by the number of objects created so far, so that each creation reads its
  own values.
\<close>

record platform =
  date_now :: "nat \<Rightarrow> nat"
  random_suffix :: "nat \<Rightarrow> string"
  toLocaleString :: "nat \<Rightarrow> string"
  toFixed1 :: "rat \<Rightarrow> string"
  notification_in_window :: bool
  requestPermission_answer :: permission
  stringify_alerts :: "alert list \<Rightarrow> string"
  parse_alerts :: "string \<Rightarrow> alert list option"
  stringify_history :: "historyItem list \<Rightarrow> string"
  parse_history :: "string \<Rightarrow> historyItem list option"

text \<open>The calls that leave the component, in the order they are made.\<close>

datatype effect =
  PlayFireAlarm nat
| StopAlarm
| ShowNotification string string
| WindowAlert string

record app_state =
  activeTab :: tab
  selectedFile :: "upload option"
  isLoading :: bool
  detectionResult :: "detection_result option"
  isMonitoring :: bool
  alerts :: "alert list"
  detectionHistory :: "historyItem list"
  instantAlert :: "alert option"
  isEmergencyStop :: bool
  notification_permission :: permission
  created :: nat
  effects :: "effect list"
  localStorage :: "string \<rightharpoonup> string"

definition emit :: "effect \<Rightarrow> app_state \<Rightarrow> app_state" where
  "emit e a = a\<lparr>effects := effects a @ [e]\<rparr>"

definition fire_emoji :: string where
  "fire_emoji = [CHR 0xF0, CHR 0x9F, CHR 0x94, CHR 0xA5]"

definition satellite_emoji :: string where
  "satellite_emoji = [CHR 0xF0, CHR 0x9F, CHR 0x9B, CHR 0xB0, CHR 0xEF, CHR 0xB8, CHR 0x8F]"

text \<open>\<^verbatim>\<open>`alert-${Date.now()}-${Math.random().toString(36).substr(2, 9)}`\<close> and its like.\<close>

definition fresh_id :: "platform \<Rightarrow> string \<Rightarrow> nat \<Rightarrow> string" where
  "fresh_id pf pre n = pre @ ''-'' @ show_nat (date_now pf n) @ ''-'' @ random_suffix pf n"

text \<open>\<^verbatim>\<open>ds.reduce((sum, d) => sum + d.confidence, 0) / ds.length\<close>\<close>

definition avg_confidence :: "detection list \<Rightarrow> rat" where
  "avg_confidence ds = foldl (\<lambda>sum d. sum + confidence d) 0 ds / of_nat (length ds)"

subsection \<open>The streaming path of handleDetection\<close>

text \<open>The variables of one streaming run, and the component state they are used with.\<close>

record stream_run =
  allDetections :: "detection list"
  firstFireFrame :: "nat option"
  totalFramesWithFire :: nat
  app :: app_state

text \<open>\<^verbatim>\<open>!firstFireFrame\<close>: \<^verbatim>\<open>null\<close> and the frame number 0 are both falsy.\<close>

definition not_set :: "nat option \<Rightarrow> bool" where
  "not_set v = (case v of None \<Rightarrow> True | Some n \<Rightarrow> n = 0)"

text \<open>
  The frame callback. \<open>stopped\<close> is the value of \<^verbatim>\<open>isEmergencyStop\<close> that the
  callback sees: that of the render in which \<^verbatim>\<open>handleDetection\<close> was called.
\<close>

definition streaming_onFrameDetection ::
  "platform \<Rightarrow> upload \<Rightarrow> bool \<Rightarrow> frameData \<Rightarrow> stream_run \<Rightarrow> stream_run" where
  "streaming_onFrameDetection pf f stopped fd r =
     (if has_fire fd \<and> length (detections fd) > 0 then
        (let r1 = r\<lparr>totalFramesWithFire := totalFramesWithFire r + 1\<rparr>;
             r2 = (if not_set (firstFireFrame r1) then r1\<lparr>firstFireFrame := Some (frame fd)\<rparr> else r1);
             avgConfidence = avg_confidence (detections fd);
             r3 =
               (if \<not> stopped then
                  (let a = app r2;
                       n = created a;
                       new_alert =
                         \<lparr> alert_id = Some (fresh_id pf ''alert'' n),
                           message = fire_emoji @ '' FIRE DETECTED in frame '' @ show_nat (frame fd) @ ''!'',
                           details = show_nat (length (detections fd)) @ '' detection(s) with ''
                             @ toFixed1 pf (avgConfidence * 100) @ ''% confidence'',
                           severity = ''high'',
                           timestamp = toLocaleString pf n,
                           frameNumber = Some (frame fd),
                           source = None \<rparr>;
                       a1 = (if totalFramesWithFire r2 = 1 then emit (PlayFireAlarm 3000) a else a);
                       a2 = a1\<lparr>instantAlert := Some new_alert\<rparr>;
                       a3 = a2\<lparr>alerts := new_alert # alerts a2\<rparr>;
                       a4 =
                         (if totalFramesWithFire r2 = 1 \<and> notification_in_window pf
                             \<and> notification_permission a3 = Granted
                          then emit (ShowNotification (fire_emoji @ '' FIRE DETECTED!'')
                                 (''Fire found in frame '' @ show_nat (frame fd) @ '' of ''
                                    @ file_name f @ ''!'')) a3
                          else a3)
                   in r2\<lparr>app := a4\<lparr>created := n + 1\<rparr>\<rparr>)
                else r2)
         in r3\<lparr>allDetections := allDetections r3 @ detections fd\<rparr>)
      else r)"

definition streaming_onComplete :: "platform \<Rightarrow> upload \<Rightarrow> stream_run \<Rightarrow> stream_run" where
  "streaming_onComplete pf f r =
     (let a = app r;
          n = created a;
          result = StreamingResult (allDetections r) (totalFramesWithFire r) (firstFireFrame r);
          a1 = a\<lparr>detectionResult := Some result\<rparr>;
          item =
            \<lparr> item_id = fresh_id pf ''detection'' n,
              item_type = ''Fire & Smoke Detection (Streaming)'',
              filename = file_name f,
              item_timestamp = toLocaleString pf n,
              detected = (length (allDetections r) > 0),
              item_details =
                StreamingDetails (allDetections r) (length (allDetections r))
                  (totalFramesWithFire r) (firstFireFrame r)
                  (if length (allDetections r) > 0 then avg_confidence (allDetections r) else 0) \<rparr>;
          a2 = a1\<lparr>detectionHistory := item # detectionHistory a1\<rparr>;
          a3 = a2\<lparr>isLoading := False\<rparr>
      in r\<lparr>app := a3\<lparr>created := n + 1\<rparr>\<rparr>)"

definition streaming_onError :: "string \<Rightarrow> stream_run \<Rightarrow> stream_run" where
  "streaming_onError msg r =
     r\<lparr>app := (emit (WindowAlert (''Error during streaming detection: '' @ msg)) (app r))
                 \<lparr>isLoading := False\<rparr>\<rparr>"

definition streaming_callbacks :: "platform \<Rightarrow> upload \<Rightarrow> bool \<Rightarrow> stream_run callbacks" where
  "streaming_callbacks pf f stopped =
     \<lparr> onFrameDetection = Some (streaming_onFrameDetection pf f stopped),
       onComplete = Some (streaming_onComplete pf f),
       onError = Some streaming_onError \<rparr>"

definition catch_error :: "string \<Rightarrow> app_state \<Rightarrow> app_state" where
  "catch_error msg a =
     (emit (WindowAlert (''Error processing file: '' @ msg
        @ ''\<newline>\<newline>Please ensure the backend server is running on http://localhost:8000'')) a)
       \<lparr>isLoading := False\<rparr>"

text \<open>
  \<^verbatim>\<open>let allDetections = []; let firstFireFrame = null; let totalFramesWithFire = 0;\<close>
\<close>

definition new_run :: "app_state \<Rightarrow> stream_run" where
  "new_run a = \<lparr> allDetections = [], firstFireFrame = None, totalFramesWithFire = 0, app = a \<rparr>"

text \<open>The frames that raise an alert, and the frame callback over the frames of a run.\<close>

definition fire_frame :: "frameData \<Rightarrow> bool" where
  "fire_frame fd = (has_fire fd \<and> length (detections fd) > 0)"

definition run_frames ::
  "platform \<Rightarrow> upload \<Rightarrow> bool \<Rightarrow> frameData list \<Rightarrow> stream_run \<Rightarrow> stream_run" where
  "run_frames pf f stopped fs r = fold (streaming_onFrameDetection pf f stopped) fs r"

text \<open>What the first fire frame of a run sets off besides its alert.\<close>

definition first_fire_effects :: "platform \<Rightarrow> upload \<Rightarrow> permission \<Rightarrow> frameData \<Rightarrow> effect list" where
  "first_fire_effects pf f perm fd =
     PlayFireAlarm 3000 #
     (if notification_in_window pf \<and> perm = Granted
      then [ShowNotification (fire_emoji @ '' FIRE DETECTED!'')
              (''Fire found in frame '' @ show_nat (frame fd) @ '' of '' @ file_name f @ ''!'')]
      else [])"

subsection \<open>The single-shot path of handleDetection\<close>

definition threatDetected :: "bool \<Rightarrow> batch_result \<Rightarrow> bool" where
  "threatDetected isFireSmoke result =
     (if isFireSmoke then
        (case result_detections result of None \<Rightarrow> False | Some ds \<Rightarrow> length ds > 0)
      else
        (case wildfire result of None \<Rightarrow> False | Some w \<Rightarrow> w \<noteq> 0 \<and> w > 1 / 2))"

definition riskLevel :: "rat option \<Rightarrow> string" where
  "riskLevel w =
     (case w of
        None \<Rightarrow> ''Low''
      | Some p \<Rightarrow> if p > 7 / 10 then ''High'' else if p > 1 / 2 then ''Medium'' else ''Low'')"

definition show_notification_or_ask :: "platform \<Rightarrow> string \<Rightarrow> string \<Rightarrow> app_state \<Rightarrow> app_state" where
  "show_notification_or_ask pf title body a =
     (if notification_in_window pf \<and> notification_permission a = Granted then
        emit (ShowNotification title body) a
      else if notification_in_window pf \<and> notification_permission a = Default then
        (let a1 = a\<lparr>notification_permission := requestPermission_answer pf\<rparr>
         in if requestPermission_answer pf = Granted then emit (ShowNotification title body) a1 else a1)
      else a)"

definition batch_detection ::
  "platform \<Rightarrow> upload \<Rightarrow> bool \<Rightarrow> bool \<Rightarrow> batch_result \<Rightarrow> app_state \<Rightarrow> app_state" where
  "batch_detection pf f isFireSmoke stopped result a =
     (let a1 = a\<lparr>detectionResult := Some (BatchResult result)\<rparr>;
          threat = threatDetected isFireSmoke result;
          ds = (case result_detections result of None \<Rightarrow> [] | Some xs \<Rightarrow> xs);
          avgConfidence = (if isFireSmoke \<and> length ds > 0 then avg_confidence ds else 0);
          n = created a1;
          item =
            \<lparr> item_id = fresh_id pf ''detection'' n,
              item_type = (if isFireSmoke then ''Fire & Smoke Detection'' else ''Satellite Analysis''),
              filename = file_name f,
              item_timestamp = toLocaleString pf n,
              detected = threat,
              item_details =
                (if isFireSmoke then
                   FireSmokeDetails (result_detections result) (length ds) avgConfidence
                 else SatelliteDetails (wildfire result) (riskLevel (wildfire result))) \<rparr>;
          a2 = a1\<lparr>detectionHistory := item # detectionHistory a1, created := n + 1\<rparr>;
          a3 =
            (if threat \<and> \<not> stopped then
               (let detailsText =
                      (if isFireSmoke then
                         show_nat (length ds) @ '' detection(s) with ''
                           @ toFixed1 pf (avgConfidence * 100) @ ''% avg confidence''
                       else
                         ''Wildfire probability: ''
                           @ toFixed1 pf ((case wildfire result of None \<Rightarrow> 0 | Some w \<Rightarrow> w) * 100) @ ''%'');
                    m = created a2;
                    new_alert =
                      \<lparr> alert_id = Some (fresh_id pf ''alert'' m),
                        message =
                          (if isFireSmoke then ''Fire or smoke detected in '' @ file_name f @ ''!''
                           else ''High wildfire risk detected in '' @ file_name f @ ''!''),
                        details = detailsText,
                        severity = ''high'',
                        timestamp = toLocaleString pf m,
                        frameNumber = None,
                        source = None \<rparr>;
                    b1 = a2\<lparr>alerts := new_alert # alerts a2, created := m + 1\<rparr>;
                    b2 = emit (PlayFireAlarm 3000) b1;
                    b3 = b2\<lparr>instantAlert := Some new_alert\<rparr>
                in show_notification_or_ask pf (fire_emoji @ '' Wildfire Alert'')
                     (message new_alert @ ''\<newline>'' @ detailsText) b3)
             else a2)
      in a3\<lparr>isLoading := False\<rparr>)"

subsection \<open>handleDetection\<close>

text \<open>
  \<open>stream_reply\<close> and \<open>batch_reply\<close> are what the server answers on the path
  taken; \<open>parse\<close> is \<^verbatim>\<open>JSON.parse\<close> on an event's payload.
\<close>

definition handleDetection ::
  "platform \<Rightarrow> (string \<Rightarrow> frameData option) \<Rightarrow> fetch_result \<Rightarrow> string + batch_result \<Rightarrow>
   app_state \<Rightarrow> app_state" where
  "handleDetection pf parse stream_reply batch_reply a =
     (case selectedFile a of
        None \<Rightarrow> a
      | Some f \<Rightarrow>
          (let a1 = a\<lparr>isLoading := True, detectionResult := None\<rparr>;
               isFireSmoke = (activeTab a = FireSmokeTab);
               isVideo = startsWith (file_type f) ''video/''
           in if isVideo \<and> isFireSmoke then
                (case detectFireSmokeStreaming parse
                        (streaming_callbacks pf f (isEmergencyStop a)) stream_reply
                        (new_run a1) of
                   (Resolved, r) \<Rightarrow> app r
                 | (Rejected msg, r) \<Rightarrow> catch_error msg (app r))
              else
                (case batch_reply of
                   Inl msg \<Rightarrow> catch_error msg a1
                 | Inr result \<Rightarrow>
                     batch_detection pf f isFireSmoke (isEmergencyStop a) result a1)))"

subsection \<open>Live camera and satellite alerts\<close>

text \<open>
  The \<^verbatim>\<open>onFireDetected\<close> callback handed to the live-camera component. As for the
  frame callback, \<open>stopped\<close> is the \<^verbatim>\<open>isEmergencyStop\<close> of the render that made the
  callback which is called.
\<close>

definition onFireDetected :: "platform \<Rightarrow> bool \<Rightarrow> alert \<Rightarrow> app_state \<Rightarrow> app_state" where
  "onFireDetected pf stopped al a =
     (if \<not> stopped then
        (let a1 = emit (PlayFireAlarm 3000) a;
             a2 = a1\<lparr>alerts := al # alerts a1\<rparr>;
             a3 = a2\<lparr>instantAlert := Some al\<rparr>;
             n = created a3;
             item =
               \<lparr> item_id = fresh_id pf ''detection'' n,
                 item_type = ''Live Camera Detection'',
                 filename = ''Webcam Feed'',
                 item_timestamp = timestamp al,
                 detected = True,
                 item_details = WebcamDetails ''webcam'' (message al) \<rparr>
         in a3\<lparr>detectionHistory := item # detectionHistory a3, created := n + 1\<rparr>)
      else a)"

definition handleSatelliteFireDetected :: "platform \<Rightarrow> nat \<Rightarrow> app_state \<Rightarrow> app_state" where
  "handleSatelliteFireDetected pf count a =
     (let n = created a;
          satelliteAlert =
            \<lparr> alert_id = Some (''satellite-alert-'' @ show_nat (date_now pf n)),
              message = satellite_emoji @ '' SATELLITE ALERT: '' @ show_nat count
                @ '' fire hotspot(s) detected!'',
              details = ''NASA MODIS detected active fires in the region. Enhanced monitoring recommended.'',
              severity = ''critical'',
              timestamp = toLocaleString pf n,
              frameNumber = None,
              source = Some ''NASA FIRMS'' \<rparr>;
          a1 = a\<lparr>alerts := satelliteAlert # alerts a, created := n + 1\<rparr>;
          a2 = a1\<lparr>instantAlert := Some satelliteAlert\<rparr>;
          a3 = emit (PlayFireAlarm 2000) a2
      in if notification_in_window pf \<and> notification_permission a3 = Granted then
           emit (ShowNotification (satellite_emoji @ '' SATELLITE FIRE ALERT'')
             (show_nat count @ '' fire hotspot(s) detected by NASA MODIS satellite'')) a3
         else a3)"

text \<open>\<^verbatim>\<open>loadSatelliteAlerts\<close>, for the part that raises alerts: the reply's \<^verbatim>\<open>count\<close>, or a failure.\<close>

definition loadSatelliteAlerts :: "platform \<Rightarrow> string + nat \<Rightarrow> app_state \<Rightarrow> app_state" where
  "loadSatelliteAlerts pf reply a =
     (case reply of
        Inl msg \<Rightarrow> a
      | Inr count \<Rightarrow> if count > 0 then handleSatelliteFireDetected pf count a else a)"

subsection \<open>Clearing, emergency stop and resume\<close>

text \<open>\<^verbatim>\<open>prev.filter((_, i) => i !== index)\<close>\<close>

definition handleClearAlert :: "nat \<Rightarrow> app_state \<Rightarrow> app_state" where
  "handleClearAlert index a =
     a\<lparr>alerts := map snd (filter (\<lambda>(i, x). i \<noteq> index) (enumerate 0 (alerts a)))\<rparr>"

definition handleClearAllAlerts :: "app_state \<Rightarrow> app_state" where
  "handleClearAllAlerts a = a\<lparr>alerts := []\<rparr>"

definition handleClearLog :: "app_state \<Rightarrow> app_state" where
  "handleClearLog a = a\<lparr>detectionHistory := []\<rparr>"

definition handleEmergencyStop :: "app_state \<Rightarrow> app_state" where
  "handleEmergencyStop a =
     (emit StopAlarm a)
       \<lparr>isMonitoring := False, instantAlert := None, isEmergencyStop := True, isLoading := False\<rparr>"

definition handleResumeMonitoring :: "app_state \<Rightarrow> app_state" where
  "handleResumeMonitoring a = a\<lparr>isEmergencyStop := False\<rparr>"

definition handleFileSelect :: "upload \<Rightarrow> app_state \<Rightarrow> app_state" where
  "handleFileSelect f a = a\<lparr>selectedFile := Some f, detectionResult := None\<rparr>"

definition selectTab :: "tab \<Rightarrow> app_state \<Rightarrow> app_state" where
  "selectTab t a = a\<lparr>activeTab := t, selectedFile := None, detectionResult := None\<rparr>"

subsection \<open>Persistence\<close>



text \<open>
  The two \<^verbatim>\<open>useEffect\<close> hooks, run after a render. A hook whose list did not change
  would write the text that is already stored, so both are written.
\<close>

definition persist :: "platform \<Rightarrow> app_state \<Rightarrow> app_state" where
  "persist pf a =
     a\<lparr>localStorage :=
         ((localStorage a)(''wildfire-alerts'' \<mapsto> stringify_alerts pf (alerts a)))
           (''wildfire-detection-history'' \<mapsto> stringify_history pf (detectionHistory a))\<rparr>"

text \<open>The state of the first render, given what the initialisers loaded.\<close>

definition initial_state ::
  "permission \<Rightarrow> (string \<rightharpoonup> string) \<Rightarrow> alert list \<Rightarrow> historyItem list \<Rightarrow> app_state" where
  "initial_state perm store al hi =
     \<lparr> activeTab = FireSmokeTab, selectedFile = None, isLoading = False,
       detectionResult = None, isMonitoring = False, alerts = al,
       detectionHistory = hi, instantAlert = None, isEmergencyStop = False,
       notification_permission = perm, created = 0, effects = [],
       localStorage = store \<rparr>"


text \<open>What can happen to the mounted component, and one step: the handler, then the hooks.\<close>

datatype app_event =
  FileSelected upload
| TabSelected tab
| DetectClicked fetch_result "string + batch_result"
| ClearAlertClicked nat
| ClearAllAlertsClicked
| ClearLogClicked
| EmergencyStopClicked
| ResumeClicked
| CameraFireDetected bool alert
| SatelliteAlertsLoaded "string + nat"
| InstantAlertDismissed

fun handle :: "platform \<Rightarrow> (string \<Rightarrow> frameData option) \<Rightarrow> app_event \<Rightarrow> app_state \<Rightarrow> app_state" where
  "handle pf parse (FileSelected f) a = handleFileSelect f a"
| "handle pf parse (TabSelected t) a = selectTab t a"
| "handle pf parse (DetectClicked sr br) a = handleDetection pf parse sr br a"
| "handle pf parse (ClearAlertClicked i) a = handleClearAlert i a"
| "handle pf parse ClearAllAlertsClicked a = handleClearAllAlerts a"
| "handle pf parse ClearLogClicked a = handleClearLog a"
| "handle pf parse EmergencyStopClicked a = handleEmergencyStop a"
| "handle pf parse ResumeClicked a = handleResumeMonitoring a"
| "handle pf parse (CameraFireDetected stopped al) a = onFireDetected pf stopped al a"
| "handle pf parse (SatelliteAlertsLoaded reply) a = loadSatelliteAlerts pf reply a"
| "handle pf parse InstantAlertDismissed a = a\<lparr>instantAlert := None\<rparr>"

definition step :: "platform \<Rightarrow> (string \<Rightarrow> frameData option) \<Rightarrow> app_event \<Rightarrow> app_state \<Rightarrow> app_state" where
  "step pf parse ev a = persist pf (handle pf parse ev a)"


text \<open>Counting in the trace of effects.\<close>

definition alarm_count :: "app_state \<Rightarrow> nat" where
  "alarm_count a = length (filter (\<lambda>e. case e of PlayFireAlarm d \<Rightarrow> True | _ \<Rightarrow> False) (effects a))"

definition notification_count :: "app_state \<Rightarrow> nat" where
  "notification_count a =
     length (filter (\<lambda>e. case e of ShowNotification t b \<Rightarrow> True | _ \<Rightarrow> False) (effects a))"

section \<open>utils/audioAlert.js: AudioAlertSystem\<close>

text \<open>
  Times are in milliseconds; \<open>now\<close> is the audio context's \<^verbatim>\<open>currentTime\<close> when a
  method reads it. Parameter automation is kept as the list of scheduled events.
\<close>

datatype automation =
  SetValueAtTime rat int
| LinearRampToValueAtTime rat int
| CancelScheduledValues int

record oscillator =
  osc_id :: nat
  osc_type :: string
  frequency :: "automation list"
  started_at :: "int option"
  stop_at :: "int option"
  osc_connected :: bool

record gain_node =
  gain_id :: nat
  gain :: "automation list"
  gain_connected :: bool

text \<open>The \<^verbatim>\<open>Audio\<close> element of the clip, with the number of listener pairs attached to it.\<close>

record audio_element =
  src :: string
  volume :: rat
  paused :: bool
  currentTime :: int
  listeners :: nat

record alarm_system =
  audioContext :: bool
  isPlaying :: bool
  oscillators :: "oscillator list"
  gainNodes :: "gain_node list"
  audioElement :: "audio_element option"
  mp3Path :: string
  next_node :: nat

definition constructor :: alarm_system where
  "constructor =
     \<lparr> audioContext = False, isPlaying = False, oscillators = [], gainNodes = [],
       audioElement = None, mp3Path = ''/fire-alarm.wav'', next_node = 0 \<rparr>"

definition init :: "alarm_system \<Rightarrow> alarm_system" where
  "init s = (if \<not> audioContext s then s\<lparr>audioContext := True\<rparr> else s)"

subsection \<open>playMP3Alarm\<close>

text \<open>Up to \<^verbatim>\<open>await this.audioElement.play()\<close>: the flag is set before the wait.\<close>

definition playMP3Alarm_start :: "alarm_system \<Rightarrow> alarm_system" where
  "playMP3Alarm_start s =
     (let el = (case audioElement s of
                  None \<Rightarrow> \<lparr> src = mp3Path s, volume = 1, paused = True, currentTime = 0, listeners = 0 \<rparr>
                | Some e \<Rightarrow> e);
          el1 = el\<lparr>currentTime := 0\<rparr>
      in s\<lparr>audioElement := Some el1, isPlaying := True\<rparr>)"

text \<open>
  After the wait: \<open>ok\<close> says whether \<^verbatim>\<open>play()\<close> resolved. On success the clip runs
  and the two listeners are attached; on rejection the \<^verbatim>\<open>catch\<close> clears the flag.
\<close>

definition playMP3Alarm_settle :: "bool \<Rightarrow> alarm_system \<Rightarrow> bool \<times> alarm_system" where
  "playMP3Alarm_settle ok s =
     (if ok then
        (True, s\<lparr>audioElement := map_option (\<lambda>e. e\<lparr>paused := False, listeners := listeners e + 1\<rparr>)
                                   (audioElement s)\<rparr>)
      else (False, s\<lparr>isPlaying := False\<rparr>))"

definition playMP3Alarm :: "bool \<Rightarrow> alarm_system \<Rightarrow> bool \<times> alarm_system" where
  "playMP3Alarm ok s = playMP3Alarm_settle ok (playMP3Alarm_start s)"

subsection \<open>playGeneratedSiren\<close>

text \<open>\<^verbatim>\<open>while (time < endTime)\<close> of a siren voice: one up-and-down ramp per 400 ms.\<close>

function siren_pattern :: "rat \<Rightarrow> rat \<Rightarrow> int \<Rightarrow> int \<Rightarrow> automation list" where
  "siren_pattern lowFreq highFreq time endTime =
     (if time < endTime then
        [SetValueAtTime lowFreq time,
         LinearRampToValueAtTime highFreq (time + 200),
         LinearRampToValueAtTime lowFreq (time + 400)]
        @ siren_pattern lowFreq highFreq (time + 400) endTime
      else [])"
  by pat_completeness auto
termination
  by (relation "measure (\<lambda>(l, h, time, endTime). nat (endTime - time))") auto

text \<open>The pulse of the bass voice: one pulse per 200 ms.\<close>

function bass_pattern :: "int \<Rightarrow> int \<Rightarrow> automation list" where
  "bass_pattern time endTime =
     (if time < endTime then
        [SetValueAtTime 0 time,
         LinearRampToValueAtTime (1 / 4) (time + 100),
         LinearRampToValueAtTime 0 (time + 200)]
        @ bass_pattern (time + 200) endTime
      else [])"
  by pat_completeness auto
termination
  by (relation "measure (\<lambda>(time, endTime). nat (endTime - time))") auto

declare siren_pattern.simps [simp del] bass_pattern.simps [simp del]

text \<open>The body of \<^verbatim>\<open>frequencies.forEach\<close>: one voice, pushed on both lists.\<close>

definition add_voice :: "int \<Rightarrow> int \<Rightarrow> rat \<times> string \<Rightarrow> alarm_system \<Rightarrow> alarm_system" where
  "add_voice now endTime ft s =
     (let (freq, type) = ft;
          n = next_node s;
          osc = \<lparr> osc_id = n, osc_type = type,
                  frequency = siren_pattern freq (freq * (3 / 2)) now endTime,
                  started_at = Some now, stop_at = Some endTime, osc_connected = True \<rparr>;
          gn = \<lparr> gain_id = n + 1,
                 gain = [SetValueAtTime 0 now,
                         LinearRampToValueAtTime (1 / 5) (now + 50),
                         SetValueAtTime (1 / 5) (endTime - 200),
                         LinearRampToValueAtTime 0 endTime],
                 gain_connected = True \<rparr>
      in s\<lparr>oscillators := oscillators s @ [osc], gainNodes := gainNodes s @ [gn],
            next_node := n + 2\<rparr>)"

definition playGeneratedSiren :: "int \<Rightarrow> nat \<Rightarrow> alarm_system \<Rightarrow> alarm_system" where
  "playGeneratedSiren now duration s =
     (let s1 = (init s)\<lparr>isPlaying := True\<rparr>;
          endTime = now + int duration;
          s2 = fold (add_voice now endTime) [(800, ''sine''), (1000, ''square''), (1200, ''sine'')] s1;
          n = next_node s2;
          bassOsc = \<lparr> osc_id = n, osc_type = ''triangle'', frequency = [SetValueAtTime 200 now],
                      started_at = Some now, stop_at = Some endTime, osc_connected = True \<rparr>;
          bassGain = \<lparr> gain_id = n + 1, gain = bass_pattern now endTime, gain_connected = True \<rparr>
      in s2\<lparr>oscillators := oscillators s2 @ [bassOsc], gainNodes := gainNodes s2 @ [bassGain],
             next_node := n + 2\<rparr>)"

subsection \<open>playFireAlarm and stopAlarm\<close>

text \<open>The call run to its end; \<open>mp3_ok\<close> is the outcome of the clip's \<^verbatim>\<open>play()\<close>.\<close>

definition playFireAlarm :: "bool \<Rightarrow> int \<Rightarrow> nat \<Rightarrow> alarm_system \<Rightarrow> alarm_system" where
  "playFireAlarm mp3_ok now duration s =
     (if isPlaying s then s
      else
        (let (mp3Success, s1) = playMP3Alarm mp3_ok s
         in if \<not> mp3Success then playGeneratedSiren now duration s1 else s1))"

text \<open>What \<^verbatim>\<open>stopAlarm\<close> does to one gain node and to one oscillator.\<close>

definition fade_out :: "int \<Rightarrow> rat \<Rightarrow> gain_node \<Rightarrow> gain_node" where
  "fade_out now current g =
     g\<lparr>gain := gain g @ [CancelScheduledValues now, SetValueAtTime current now,
                           LinearRampToValueAtTime 0 (now + 100)]\<rparr>"

definition stop_oscillator :: "int \<Rightarrow> oscillator \<Rightarrow> oscillator" where
  "stop_oscillator when osc = osc\<lparr>stop_at := Some when\<rparr>"

text \<open>
  \<open>value_of\<close> reads a gain node's current value (\<^verbatim>\<open>gainNode.gain.value\<close>). The
  method returns as soon as it finds no audio context, before the flag is cleared.
\<close>

definition stopAlarm :: "(gain_node \<Rightarrow> rat) \<Rightarrow> int \<Rightarrow> alarm_system \<Rightarrow> alarm_system" where
  "stopAlarm value_of now s =
     (let s1 = (case audioElement s of
                  None \<Rightarrow> s
                | Some el \<Rightarrow>
                    if \<not> paused el
                    then s\<lparr>audioElement := Some (el\<lparr>paused := True, currentTime := 0\<rparr>)\<rparr>
                    else s)
      in if \<not> audioContext s1 then s1
         else
           (let s2 = s1\<lparr>gainNodes := map (\<lambda>g. fade_out now (value_of g) g) (gainNodes s1)\<rparr>;
                s3 = s2\<lparr>oscillators := map (stop_oscillator (now + 100)) (oscillators s2)\<rparr>
            in s3\<lparr>isPlaying := False\<rparr>))"

subsection \<open>Events of the platform\<close>

text \<open>The \<^verbatim>\<open>ended\<close> and \<^verbatim>\<open>error\<close> listeners of the clip: every attached pair runs once.\<close>

definition clip_finished :: "alarm_system \<Rightarrow> alarm_system" where
  "clip_finished s =
     (case audioElement s of
        None \<Rightarrow> s
      | Some el \<Rightarrow>
          if listeners el > 0
          then s\<lparr>isPlaying := False, audioElement := Some (el\<lparr>paused := True, listeners := 0\<rparr>)\<rparr>
          else s\<lparr>audioElement := Some (el\<lparr>paused := True\<rparr>)\<rparr>)"

text \<open>\<^verbatim>\<open>onended\<close> of a siren voice with oscillator \<open>i\<close> (its gain node is \<open>i + 1\<close>).\<close>

definition voice_ended :: "nat \<Rightarrow> alarm_system \<Rightarrow> alarm_system" where
  "voice_ended i s =
     (let s1 = s\<lparr>oscillators := filter (\<lambda>osc. osc_id osc \<noteq> i) (oscillators s),
                 gainNodes := filter (\<lambda>gn. gain_id gn \<noteq> i + 1) (gainNodes s)\<rparr>
      in if length (oscillators s1) = 0 then s1\<lparr>isPlaying := False\<rparr> else s1)"

text \<open>\<^verbatim>\<open>onended\<close> of the bass voice: it disconnects, and stays on both lists.\<close>

definition bass_ended :: "nat \<Rightarrow> alarm_system \<Rightarrow> alarm_system" where
  "bass_ended i s =
     s\<lparr>oscillators := map (\<lambda>osc. if osc_id osc = i then osc\<lparr>osc_connected := False\<rparr> else osc) (oscillators s),
       gainNodes := map (\<lambda>gn. if gain_id gn = i + 1 then gn\<lparr>gain_connected := False\<rparr> else gn) (gainNodes s)\<rparr>"

text \<open>Whether the clip sounds, and whether a synthesized voice is still scheduled at \<open>t\<close>.\<close>

definition clip_active :: "alarm_system \<Rightarrow> bool" where
  "clip_active s = (case audioElement s of None \<Rightarrow> False | Some el \<Rightarrow> \<not> paused el)"

definition voices_active :: "int \<Rightarrow> alarm_system \<Rightarrow> bool" where
  "voices_active t s =
     list_ex (\<lambda>osc. case stop_at osc of None \<Rightarrow> True | Some e \<Rightarrow> t < e) (oscillators s)"

text \<open>One call of \<^verbatim>\<open>playFireAlarm\<close>: the outcome of the clip, the clock, the duration.\<close>

definition call :: "bool \<times> int \<times> nat \<Rightarrow> alarm_system \<Rightarrow> alarm_system" where
  "call c s = (case c of (ok, now, d) \<Rightarrow> playFireAlarm ok now d s)"

section \<open>components/WebcamDetection.jsx: camera sources and the capture loop\<close>

subsection \<open>State\<close>

datatype camera_mode = LocalCamera | NetworkCamera

record stats =
  framesProcessed :: nat
  fireDetections :: nat
  lastDetection :: "string option"
  fps :: nat

text \<open>
  The handlers that \<^verbatim>\<open>startNetworkCamera\<close> puts on the image element, and the function
  it hands to the 500 ms timer, each with the values its closure holds: the URLs, the
  \<^verbatim>\<open>proxyFailed\<close> variable, and the \<^verbatim>\<open>hasPermission\<close> of the render that made the call.
\<close>

datatype onload_handler = ProxyLoaded string bool | DirectLoaded string

datatype onerror_handler = ProxyFailed string bool | DirectFailed string

datatype refresher = ProxyRefresh string bool | DirectRefresh string

text \<open>
  The image element exists while the component is mounted in network mode, the video
  element while it is mounted in local mode. \<open>requests\<close> lists, in order, the
  addresses the image element was told to load.
\<close>

record webcam =
  mounted :: bool
  cameraMode :: camera_mode
  networkCameraUrl :: string
  hasPermission :: bool
  error_text :: "string option"
  camera_stats :: stats
  monitoring :: bool
  intervalRef :: bool
  refreshIntervalRef :: "refresher option"
  streamRef :: bool
  img_src :: string
  img_onload :: "onload_handler option"
  img_onerror :: "onerror_handler option"
  requests :: "string list"

definition imgRef :: "webcam \<Rightarrow> bool" where
  "imgRef w = (mounted w \<and> cameraMode w = NetworkCamera)"

definition videoRef :: "webcam \<Rightarrow> bool" where
  "videoRef w = (mounted w \<and> cameraMode w = LocalCamera)"

definition canvasRef :: "webcam \<Rightarrow> bool" where
  "canvasRef w = mounted w"

definition initial_webcam :: webcam where
  "initial_webcam =
     \<lparr> mounted = True, cameraMode = LocalCamera, networkCameraUrl = [], hasPermission = False,
       error_text = None,
       camera_stats = \<lparr> framesProcessed = 0, fireDetections = 0, lastDetection = None, fps = 0 \<rparr>,
       monitoring = False, intervalRef = False, refreshIntervalRef = None, streamRef = False,
       img_src = [], img_onload = None, img_onerror = None, requests = [] \<rparr>"

text \<open>\<^verbatim>\<open>imgRef.current.src = url\<close>\<close>

definition set_src :: "string \<Rightarrow> webcam \<Rightarrow> webcam" where
  "set_src url w = w\<lparr>img_src := url, requests := requests w @ [url]\<rparr>"

subsection \<open>Strings\<close>

fun includes_text :: "string \<Rightarrow> string \<Rightarrow> bool" where
  "includes_text [] sub = (sub = [])"
| "includes_text (c # cs) sub = (take (length sub) (c # cs) = sub \<or> includes_text cs sub)"

text \<open>\<^verbatim>\<open>s.replace(sub, rep)\<close> with a text pattern: the first occurrence only.\<close>

fun replace_first :: "string \<Rightarrow> string \<Rightarrow> string \<Rightarrow> string" where
  "replace_first [] sub rep = (if sub = [] then rep else [])"
| "replace_first (c # cs) sub rep =
     (if take (length sub) (c # cs) = sub then rep @ drop (length sub) (c # cs)
      else c # replace_first cs sub rep)"

definition endsWith :: "string \<Rightarrow> string \<Rightarrow> bool" where
  "endsWith s suffix = (length suffix \<le> length s \<and> drop (length s - length suffix) s = suffix)"

subsection \<open>startNetworkCamera\<close>

definition snapshot_url :: "string \<Rightarrow> string" where
  "snapshot_url url =
     (if includes_text url ''/video'' then replace_first url ''/video'' ''/shot.jpg''
      else if endsWith url ''/'' then url @ ''shot.jpg'' else url @ ''/shot.jpg'')"

text \<open>\<open>enc\<close> stands for \<^verbatim>\<open>encodeURIComponent\<close>.\<close>

definition proxy_url :: "(string \<Rightarrow> string) \<Rightarrow> string \<Rightarrow> string" where
  "proxy_url enc snapshotUrl = ''http://localhost:8000/proxy/camera?url='' @ enc snapshotUrl"

definition direct_failure_text :: "string \<Rightarrow> string" where
  "direct_failure_text snapshotUrl =
     ''Failed to connect to camera. Please check:\<newline>1. IP address is correct\<newline>''
     @ ''2. IP Webcam app is running\<newline>3. Phone and laptop are on same WiFi\<newline>''
     @ ''4. Try accessing the URL in browser: '' @ snapshotUrl"

text \<open>\<open>valid\<close> says whether \<^verbatim>\<open>new URL(networkCameraUrl)\<close> returns rather than throws.\<close>

definition startNetworkCamera :: "(string \<Rightarrow> bool) \<Rightarrow> (string \<Rightarrow> string) \<Rightarrow> webcam \<Rightarrow> webcam" where
  "startNetworkCamera valid enc w =
     (if networkCameraUrl w = [] then w\<lparr>error_text := Some ''Please enter a valid camera URL''\<rparr>
      else if \<not> valid (networkCameraUrl w) then
        w\<lparr>error_text := Some ''Invalid camera URL. Please check the URL and try again.'',
          hasPermission := False\<rparr>
      else
        (let snapshotUrl = snapshot_url (networkCameraUrl w);
             proxyUrl = proxy_url enc snapshotUrl
         in if imgRef w then
              set_src proxyUrl
                (w\<lparr>img_onload := Some (ProxyLoaded proxyUrl (hasPermission w)),
                   img_onerror := Some (ProxyFailed snapshotUrl False)\<rparr>)
            else w))"

subsection \<open>Events of the image element and of the refresh timer\<close>

definition image_loaded :: "webcam \<Rightarrow> webcam" where
  "image_loaded w =
     (case img_onload w of
        None \<Rightarrow> w
      | Some (ProxyLoaded proxyUrl captured) \<Rightarrow>
          (let w1 = w\<lparr>hasPermission := True, error_text := None\<rparr>
           in if refreshIntervalRef w1 = None
              then w1\<lparr>refreshIntervalRef := Some (ProxyRefresh proxyUrl captured)\<rparr> else w1)
      | Some (DirectLoaded snapshotUrl) \<Rightarrow>
          (let w1 = w\<lparr>hasPermission := True, error_text := None\<rparr>
           in if refreshIntervalRef w1 = None
              then w1\<lparr>refreshIntervalRef := Some (DirectRefresh snapshotUrl)\<rparr> else w1))"

text \<open>
  An \<^verbatim>\<open>error\<close> event runs the element's \<^verbatim>\<open>onError\<close> property of the markup, which sees
  the current \<^verbatim>\<open>hasPermission\<close>, and then the handler that \<^verbatim>\<open>startNetworkCamera\<close> set.
\<close>

definition markup_onError :: "webcam \<Rightarrow> webcam" where
  "markup_onError w =
     (if hasPermission w then
        w\<lparr>error_text := Some (''Failed to load camera stream. Please check the URL and ''
                                @ ''ensure the camera is accessible.''),
          hasPermission := False\<rparr>
      else w)"

definition image_failed :: "webcam \<Rightarrow> webcam" where
  "image_failed w0 =
     (let w = markup_onError w0
      in case img_onerror w of
           None \<Rightarrow> w
         | Some (ProxyFailed snapshotUrl proxyFailed) \<Rightarrow>
             if \<not> proxyFailed then
               (let w1 = w\<lparr>error_text := Some ''Proxy connection failed. Trying direct connection...''\<rparr>;
                    w2 = set_src snapshotUrl w1
                in w2\<lparr>img_onerror := Some (DirectFailed snapshotUrl),
                      img_onload := Some (DirectLoaded snapshotUrl)\<rparr>)
             else w
         | Some (DirectFailed snapshotUrl) \<Rightarrow>
             w\<lparr>error_text := Some (direct_failure_text snapshotUrl), hasPermission := False,
               refreshIntervalRef := None\<rparr>)"

text \<open>One firing of the 500 ms timer; \<open>t\<close> is the text of \<^verbatim>\<open>new Date().getTime()\<close>.\<close>

definition refresh_tick :: "string \<Rightarrow> webcam \<Rightarrow> webcam" where
  "refresh_tick t w =
     (case refreshIntervalRef w of
        None \<Rightarrow> w
      | Some (ProxyRefresh proxyUrl captured) \<Rightarrow>
          if imgRef w \<and> captured then set_src (proxyUrl @ ''&t='' @ t) w else w
      | Some (DirectRefresh snapshotUrl) \<Rightarrow>
          if imgRef w then set_src (snapshotUrl @ ''?t='' @ t) w else w)"

subsection \<open>Local camera, stopping\<close>

text \<open>\<open>granted\<close> is the outcome of \<^verbatim>\<open>getUserMedia\<close>.\<close>

definition startWebcam :: "bool \<Rightarrow> webcam \<Rightarrow> webcam" where
  "startWebcam granted w =
     (if granted then
        (if videoRef w then w\<lparr>streamRef := True, hasPermission := True, error_text := None\<rparr> else w)
      else
        w\<lparr>error_text := Some ''Failed to access webcam. Please grant camera permissions.'',
          hasPermission := False\<rparr>)"

definition stopCamera :: "webcam \<Rightarrow> webcam" where
  "stopCamera w =
     (let w1 =
            (if cameraMode w = LocalCamera then w\<lparr>streamRef := False\<rparr>
             else
               (let w2 = (if imgRef w then w\<lparr>img_onload := None, img_onerror := None, img_src := []\<rparr>
                          else w)
                in w2\<lparr>refreshIntervalRef := None\<rparr>))
      in w1\<lparr>hasPermission := False\<rparr>)"

text \<open>The mode buttons; an element that leaves the page takes its handlers with it.\<close>

definition setCameraMode :: "camera_mode \<Rightarrow> webcam \<Rightarrow> webcam" where
  "setCameraMode m w =
     (let w1 = (if m = cameraMode w then w
                else w\<lparr>img_src := [], img_onload := None, img_onerror := None\<rparr>)
      in w1\<lparr>cameraMode := m, error_text := None\<rparr>)"

subsection \<open>captureAndDetect\<close>

text \<open>The answer of \<^verbatim>\<open>POST /detect/frame\<close>.\<close>

record frame_result =
  frame_has_fire :: bool
  frame_detections :: "detection list option"

text \<open>
  What one tick finds: the readiness of the source, whether drawing and encoding the
  frame succeeds, the outcome of the request, and the two clock texts.
\<close>

record capture_env =
  readyState :: nat
  img_complete :: bool
  naturalWidth :: nat
  capture_ok :: bool
  reply :: "string + frame_result"
  time_text :: string
  locale_text :: string

definition camera_alert_for :: "(rat \<Rightarrow> string) \<Rightarrow> camera_mode \<Rightarrow> string \<Rightarrow> detection list \<Rightarrow> alert" where
  "camera_alert_for fixed1 m stamp ds =
     \<lparr> alert_id = None,
       message = fire_emoji @ '' FIRE DETECTED in ''
         @ (if m = LocalCamera then ''webcam'' else ''network camera'') @ ''!'',
       details = show_nat (length ds) @ '' detection(s) with ''
         @ fixed1 (avg_confidence ds * 100) @ ''% confidence'',
       severity = ''high'',
       timestamp = stamp,
       frameNumber = None,
       source = Some (if m = LocalCamera then ''webcam'' else ''network-camera'') \<rparr>"

text \<open>The result is the component and the alert handed to \<^verbatim>\<open>onFireDetected\<close>, if any.\<close>

definition captureAndDetect :: "(rat \<Rightarrow> string) \<Rightarrow> capture_env \<Rightarrow> webcam \<Rightarrow> webcam \<times> alert option" where
  "captureAndDetect fixed1 env w =
     (if \<not> canvasRef w then (w, None)
      else
        (let isReady =
               (if cameraMode w = LocalCamera \<and> videoRef w then readyState env \<ge> 2
                else if cameraMode w = NetworkCamera \<and> imgRef w
                then img_complete env \<and> naturalWidth env > 0
                else False)
         in if \<not> isReady then (w, None)
            else if \<not> capture_ok env then (w, None)
            else
              (case reply env of
                 Inl err \<Rightarrow> (w, None)
               | Inr result \<Rightarrow>
                   (let prev = camera_stats w;
                        w1 = w\<lparr>camera_stats :=
                               \<lparr> framesProcessed = framesProcessed prev + 1,
                                 fireDetections =
                                   (if frame_has_fire result then fireDetections prev + 1
                                    else fireDetections prev),
                                 lastDetection =
                                   (if frame_has_fire result then Some (time_text env)
                                    else lastDetection prev),
                                 fps = fps prev \<rparr>\<rparr>
                    in case frame_detections result of
                         None \<Rightarrow> (w1, None)
                       | Some ds \<Rightarrow>
                           if frame_has_fire result \<and> length ds > 0
                           then (w1, Some (camera_alert_for fixed1 (cameraMode w) (locale_text env) ds))
                           else (w1, None)))))"

subsection \<open>Monitoring\<close>

definition startMonitoring ::
  "(string \<Rightarrow> bool) \<Rightarrow> (string \<Rightarrow> string) \<Rightarrow> bool \<Rightarrow> webcam \<Rightarrow> webcam" where
  "startMonitoring valid enc granted w =
     (let w1 = (if \<not> hasPermission w then
                  (if cameraMode w = LocalCamera then startWebcam granted w
                   else startNetworkCamera valid enc w)
                else w);
          w2 = w1\<lparr>monitoring := True, intervalRef := True\<rparr>
      in w2\<lparr>camera_stats := (camera_stats w2)\<lparr>fps := 1\<rparr>\<rparr>)"

definition stopMonitoring :: "webcam \<Rightarrow> webcam" where
  "stopMonitoring w = w\<lparr>monitoring := False, intervalRef := False\<rparr>"

text \<open>What can happen to the component. A capture tick has an effect while the timer runs.\<close>

datatype webcam_event =
  ModeChosen camera_mode
| UrlTyped string
| StartWebcamClicked bool
| ConnectCameraClicked
| ImageLoaded
| ImageFailed
| RefreshTick string
| StopCameraClicked
| StartMonitoringClicked bool
| StopMonitoringClicked
| CaptureTick capture_env

fun webcam_step ::
  "(string \<Rightarrow> bool) \<Rightarrow> (string \<Rightarrow> string) \<Rightarrow> (rat \<Rightarrow> string) \<Rightarrow> webcam_event \<Rightarrow> webcam \<Rightarrow> webcam" where
  "webcam_step valid enc fixed1 (ModeChosen m) w = setCameraMode m w"
| "webcam_step valid enc fixed1 (UrlTyped u) w = w\<lparr>networkCameraUrl := u\<rparr>"
| "webcam_step valid enc fixed1 (StartWebcamClicked granted) w = startWebcam granted w"
| "webcam_step valid enc fixed1 ConnectCameraClicked w = startNetworkCamera valid enc w"
| "webcam_step valid enc fixed1 ImageLoaded w = image_loaded w"
| "webcam_step valid enc fixed1 ImageFailed w = image_failed w"
| "webcam_step valid enc fixed1 (RefreshTick t) w = refresh_tick t w"
| "webcam_step valid enc fixed1 StopCameraClicked w = stopCamera w"
| "webcam_step valid enc fixed1 (StartMonitoringClicked granted) w = startMonitoring valid enc granted w"
| "webcam_step valid enc fixed1 StopMonitoringClicked w = stopMonitoring w"
| "webcam_step valid enc fixed1 (CaptureTick env) w =
     (if intervalRef w then fst (captureAndDetect fixed1 env w) else w)"

definition webcam_run ::
  "(string \<Rightarrow> bool) \<Rightarrow> (string \<Rightarrow> string) \<Rightarrow> (rat \<Rightarrow> string) \<Rightarrow> webcam_event list \<Rightarrow> webcam \<Rightarrow> webcam" where
  "webcam_run valid enc fixed1 evs w = fold (webcam_step valid enc fixed1) evs w"

section \<open>Example inputs\<close>

text \<open>
  A platform for evaluating the program on examples. Its texts are placeholders; the
  examples do not depend on them.
\<close>

definition test_platform :: platform where
  "test_platform =
     \<lparr> date_now = (\<lambda>n. 1700000000000 + n),
       random_suffix = (\<lambda>n. ''k3j9x0q2a''),
       toLocaleString = (\<lambda>n. ''1/1/2026, 12:00:00 PM''),
       toFixed1 = (\<lambda>q. ''?''),
       notification_in_window = True,
       requestPermission_answer = Granted,
       stringify_alerts = (\<lambda>xs. ''[]''),
       parse_alerts = (\<lambda>s. Some []),
       stringify_history = (\<lambda>xs. ''[]''),
       parse_history = (\<lambda>s. Some []) \<rparr>"

definition test_video :: upload where
  "test_video = \<lparr> file_name = ''clip.mp4'', file_type = ''video/mp4'' \<rparr>"

definition test_app :: app_state where
  "test_app = initial_state Granted Map.empty [] []"

definition fire_detection :: "rat \<Rightarrow> detection" where
  "fire_detection c = \<lparr> class_name = ''fire'', confidence = c \<rparr>"

definition detection_frame :: "nat \<Rightarrow> nat \<Rightarrow> bool \<Rightarrow> detection list \<Rightarrow> frameData" where
  "detection_frame n m fire ds =
     \<lparr> done_field = False, error_field = [], frame = n, total_frames = m,
       has_fire = fire, detections = ds \<rparr>"

text \<open>Ten frames, with fire in frames 2, 5 and 9.\<close>

definition throttle_frames :: "frameData list" where
  "throttle_frames =
     map (\<lambda>n. if n = 2 \<or> n = 5 \<or> n = 9
               then detection_frame n 10 True [fire_detection (9 / 10)]
               else detection_frame n 10 False [])
       [1, 2, 3, 4, 5, 6, 7, 8, 9, 10]"

text \<open>The payloads of the streaming scenario and the objects they stand for.\<close>

definition payload_frame1 :: string where
  \<open>payload_frame1 = ''{"frame":1,"has_fire":true,"detections":[{"class":"fire","confidence":0.9}]}''\<close>

definition payload_frame2 :: string where
  \<open>payload_frame2 = ''{"frame":2,"has_fire":true,"detections":[{"class":"fire","confidence":0.8}]}''\<close>

definition payload_done :: string where
  \<open>payload_done = ''{"done":true}''\<close>

definition payload_error :: string where
  \<open>payload_error = ''{"error":"boom"}''\<close>

definition done_sentinel :: frameData where
  "done_sentinel = (detection_frame 0 0 False [])\<lparr>done_field := True\<rparr>"

definition error_sentinel :: "string \<Rightarrow> frameData" where
  "error_sentinel msg = (detection_frame 0 0 False [])\<lparr>error_field := msg\<rparr>"

text \<open>\<^verbatim>\<open>JSON.parse\<close> on the payloads above; any other text is taken as malformed.\<close>

definition scenario_parse :: "string \<Rightarrow> frameData option" where
  "scenario_parse s =
     (if s = payload_frame1 then Some (detection_frame 1 0 True [fire_detection (9 / 10)])
      else if s = payload_frame2 then Some (detection_frame 2 0 True [fire_detection (8 / 10)])
      else if s = payload_done then Some done_sentinel
      else if s = payload_error then Some (error_sentinel ''boom'')
      else None)"

text \<open>An event as the producer writes it: \<^verbatim>\<open>data: <json>\n\n\<close>.\<close>

definition sse_event :: "string \<Rightarrow> string" where
  "sse_event payload = ''data: '' @ payload @ ''\<newline>\<newline>''"

text \<open>The body of the streaming scenario: frame 1, frame 2, then the terminal sentinel.\<close>

definition scenario_body :: string where
  "scenario_body = sse_event payload_frame1 @ sse_event payload_frame2 @ sse_event payload_done"

text \<open>The component after a video was selected and the scenario was run on it.\<close>

definition scenario_app :: app_state where
  "scenario_app =
     handleDetection test_platform scenario_parse
       (Response True 200 [scenario_body] EndOfStream) (Inl [])
       (handleFileSelect test_video test_app)"





text \<open>A component set to a network camera, and what capture ticks can find.\<close>

definition network_webcam :: webcam where
  "network_webcam =
     initial_webcam\<lparr>cameraMode := NetworkCamera, networkCameraUrl := ''http://192.168.1.100:8080''\<rparr>"

definition fire_env :: capture_env where
  "fire_env =
     \<lparr> readyState = 4, img_complete = False, naturalWidth = 0, capture_ok = True,
       reply = Inr \<lparr> frame_has_fire = True, frame_detections = Some [fire_detection (9 / 10)] \<rparr>,
       time_text = ''12:00:01 PM'', locale_text = ''1/1/2026, 12:00:01 PM'' \<rparr>"

definition failing_env :: capture_env where
  "failing_env = fire_env\<lparr>reply := Inl ''Network Error''\<rparr>"

definition monitoring_webcam :: webcam where
  "monitoring_webcam = startMonitoring (\<lambda>u. True) (\<lambda>u. u) True initial_webcam"

text \<open>Two frame events, one after the other.\<close>

definition two_frames_body :: string where
  "two_frames_body = sse_event payload_frame1 @ sse_event payload_frame2"

section \<open>Properties of the stream decoder\<close>

lemma split_nn_nonempty: "split_nn s \<noteq> []"
proof (induction s rule: split_nn.induct)
  case (3 c d cs)
  show ?case
  proof (cases "c = CHR 0x0A \<and> d = CHR 0x0A")
    case True
    then show ?thesis by simp
  next
    case False
    with 3 have "split_nn (d # cs) \<noteq> []" by blast
    with False show ?thesis by (simp split: list.splits)
  qed
qed simp_all

lemma split_nn_step:
  "\<not> (c = CHR 0x0A \<and> d = CHR 0x0A) \<Longrightarrow>
   split_nn (c # d # cs) = (c # hd (split_nn (d # cs))) # tl (split_nn (d # cs))"
  using split_nn_nonempty [of "d # cs"] by (simp split: list.splits)

text \<open>A text that splits into one piece is that piece: it holds no separator.\<close>

lemma split_nn_single: "split_nn s = [y] \<Longrightarrow> y = s"
proof (induction s arbitrary: y rule: split_nn.induct)
  case (3 c d cs)
  show ?case
  proof (cases "c = CHR 0x0A \<and> d = CHR 0x0A")
    case True
    with 3(3) show ?thesis by (simp add: split_nn_nonempty)
  next
    case False
    from 3(3) split_nn_step [OF False, of cs]
    have eq: "(c # hd (split_nn (d # cs))) # tl (split_nn (d # cs)) = [y]"
      by simp
    then have "tl (split_nn (d # cs)) = []" and y: "y = c # hd (split_nn (d # cs))" by simp_all
    with split_nn_nonempty [of "d # cs"] have "split_nn (d # cs) = [hd (split_nn (d # cs))]"
      by (cases "split_nn (d # cs)") simp_all
    with 3(2) False have "hd (split_nn (d # cs)) = d # cs" by blast
    with y show ?thesis by simp
  qed
qed simp_all

text \<open>
  Splitting a text that continues: the complete pieces of the first part stay, and
  the scan goes on from its unfinished last piece.
\<close>

lemma split_nn_append:
  "split_nn (s @ t) = butlast (split_nn s) @ split_nn (last (split_nn s) @ t)"
proof (induction s rule: split_nn.induct)
  case 1
  then show ?case by simp
next
  case (2 c)
  then show ?case by simp
next
  case (3 c d cs)
  show ?case
  proof (cases "c = CHR 0x0A \<and> d = CHR 0x0A")
    case True
    with 3 show ?thesis by (simp add: split_nn_nonempty)
  next
    case False
    with 3 have IH: "split_nn ((d # cs) @ t) =
        butlast (split_nn (d # cs)) @ split_nn (last (split_nn (d # cs)) @ t)"
      by blast
    let ?r = "split_nn (d # cs)"
    have ne: "?r \<noteq> []" by (rule split_nn_nonempty)
    have L: "split_nn ((c # d # cs) @ t) =
        (c # hd (split_nn ((d # cs) @ t))) # tl (split_nn ((d # cs) @ t))"
      using False split_nn_step [of c d "cs @ t"] by simp
    have R: "split_nn (c # d # cs) = (c # hd ?r) # tl ?r"
      using False by (rule split_nn_step)
    show ?thesis
    proof (cases "tl ?r")
      case Nil
      with ne have single: "?r = [hd ?r]" by (cases ?r) simp_all
      then have h: "hd ?r = d # cs" by (rule split_nn_single)
      from R Nil h have R': "split_nn (c # d # cs) = [c # d # cs]" by simp
      show ?thesis unfolding R' by simp
    next
      case (Cons z zs)
      with ne have r: "?r = hd ?r # z # zs" by (cases ?r) simp_all
      have bl: "butlast ?r = hd ?r # butlast (z # zs)" by (subst r) simp
      have la: "last ?r = last (z # zs)" by (subst r) simp
      have "split_nn ((d # cs) @ t) =
          hd ?r # (butlast (z # zs) @ split_nn (last (z # zs) @ t))"
        using IH bl la by simp
      then have L': "split_nn ((c # d # cs) @ t) =
          (c # hd ?r) # (butlast (z # zs) @ split_nn (last (z # zs) @ t))"
        using L by simp
      have R': "split_nn (c # d # cs) = (c # hd ?r) # z # zs" using R Cons by simp
      show ?thesis unfolding L' R' by simp
    qed
  qed
qed

text \<open>The unfinished last piece holds no separator.\<close>

lemma split_nn_last: "split_nn (last (split_nn x)) = [last (split_nn x)]"
proof -
  let ?r = "split_nn x"
  have "?r = butlast ?r @ split_nn (last ?r)"
    using split_nn_append [of x "[]"] by simp
  moreover have "?r = butlast ?r @ [last ?r]"
    using split_nn_nonempty [of x] by simp
  ultimately have "butlast ?r @ split_nn (last ?r) = butlast ?r @ [last ?r]" by simp
  then show ?thesis by simp
qed

text \<open>
  The loop, in closed form: the events handled are the complete pieces of the whole
  text, in order, whatever the reads were.
\<close>

lemma read_loop_unfold:
  "split_nn buffer = [buffer] \<Longrightarrow>
   read_loop parse cb chunks e buffer s =
     finish cb e (fold (process_event parse cb) (butlast (split_nn (buffer @ concat chunks))) s)"
proof (induction chunks arbitrary: buffer s)
  case Nil
  then show ?case by (cases e) (simp_all add: finish_def)
next
  case (Cons chunk rest)
  let ?r = "split_nn (buffer @ chunk)"
  have ne: "?r \<noteq> []" by (rule split_nn_nonempty)
  have step: "read_loop parse cb (chunk # rest) e buffer s =
      read_loop parse cb rest e (last ?r) (fold (process_event parse cb) (butlast ?r) s)"
    using ne by (simp add: pop_def Let_def)
  have whole: "split_nn (buffer @ concat (chunk # rest)) =
      butlast ?r @ split_nn (last ?r @ concat rest)"
    using split_nn_append [of "buffer @ chunk" "concat rest"] by simp
  have bl: "butlast (split_nn (buffer @ concat (chunk # rest))) =
      butlast ?r @ butlast (split_nn (last ?r @ concat rest))"
    unfolding whole using split_nn_nonempty by (simp add: butlast_append)
  have IH: "read_loop parse cb rest e (last ?r) s' =
      finish cb e (fold (process_event parse cb) (butlast (split_nn (last ?r @ concat rest))) s')" for s'
    by (rule Cons.IH [OF split_nn_last])
  show ?case unfolding step IH bl by simp
qed

lemma read_loop_concat:
  "read_loop parse cb chunks e [] s = read_loop parse cb [concat chunks] e [] s"
  by (simp add: read_loop_unfold del: read_loop.simps)

text \<open>
  An event text without a line feed, followed by the separator, is one piece: a
  producer that writes such events one after the other gets each of them decoded once.
\<close>

lemma split_nn_line:
  "CHR 0x0A \<notin> set x \<Longrightarrow> split_nn (x @ ''\<newline>\<newline>'' @ r) = x # split_nn r"
  by (induction x rule: split_nn.induct) (auto simp: split_nn_nonempty split: list.splits)

lemma process_event_data:
  "process_event parse cb (''data: '' @ p) s =
     (case parse p of
        None \<Rightarrow> s
      | Some fd \<Rightarrow>
          if done_field fd then call_onComplete cb s
          else if error_field fd \<noteq> [] then call_onError cb (error_field fd) s
          else call_onFrameDetection cb fd s)"
  by (simp add: process_event_def startsWith_def substring_def)

lemmas process_event_data' = process_event_data [unfolded append.simps]

lemma no_nl: "CHR 0x0A \<notin> set payload_frame1" "CHR 0x0A \<notin> set payload_frame2"
  "CHR 0x0A \<notin> set payload_done" "CHR 0x0A \<notin> set payload_error"
  by (simp_all add: payload_frame1_def payload_frame2_def payload_done_def payload_error_def)

lemma split_sse: "CHR 0x0A \<notin> set p \<Longrightarrow> split_nn (sse_event p @ r) = (''data: '' @ p) # split_nn r"
  using split_nn_line [of "''data: '' @ p" r] by (simp add: sse_event_def)

lemma parse_payloads:
  "scenario_parse payload_frame1 = Some (detection_frame 1 0 True [fire_detection (9 / 10)])"
  "scenario_parse payload_frame2 = Some (detection_frame 2 0 True [fire_detection (8 / 10)])"
  "scenario_parse payload_done = Some done_sentinel"
  "scenario_parse payload_error = Some (error_sentinel ''boom'')"
  by (simp_all add: scenario_parse_def payload_frame1_def payload_frame2_def payload_done_def payload_error_def)

lemma sentinel_fields:
  "done_field done_sentinel" "\<not> done_field (error_sentinel m)" "error_field (error_sentinel m) = m"
  "\<not> done_field (detection_frame n t b ds)" "error_field (detection_frame n t b ds) = []"
  by (simp_all add: done_sentinel_def error_sentinel_def detection_frame_def)

lemma split_sse_events:
  "\<forall>p\<in>set ps. CHR 0x0A \<notin> set p \<Longrightarrow>
   split_nn (concat (map sse_event ps)) = map (\<lambda>p. ''data: '' @ p) ps @ [[]]"
  by (induction ps) (simp_all add: split_sse del: append.simps)

lemma fold_frames:
  "map parse ps = map Some objs \<Longrightarrow> \<forall>fd\<in>set objs. \<not> done_field fd \<and> error_field fd = [] \<Longrightarrow>
   fold (process_event parse recording) (map (\<lambda>p. ''data: '' @ p) ps) lg
     = lg @ map FrameDelivered objs"
proof (induction ps arbitrary: objs lg)
  case Nil
  then show ?case by simp
next
  case (Cons p ps)
  then obtain fd rest where objs: "objs = fd # rest" and p: "parse p = Some fd"
      and rest: "map parse ps = map Some rest"
    by (cases objs) auto
  from Cons.prems(2) objs have fd: "\<not> done_field fd" "error_field fd = []"
      and frames: "\<forall>fd\<in>set rest. \<not> done_field fd \<and> error_field fd = []"
    by simp_all
  have "process_event parse recording (''data: '' @ p) lg = lg @ [FrameDelivered fd]"
    by (simp only: process_event_data) (simp add: p fd call_onFrameDetection_def recording_def)
  with Cons.IH [OF rest frames, of "lg @ [FrameDelivered fd]"] objs
  show ?case by (simp del: append.simps)
qed

lemma deliveries_encoded:
  assumes "\<forall>p\<in>set payloads. CHR 0x0A \<notin> set p"
    and "map parse payloads = map Some objs"
    and "\<forall>fd\<in>set objs. \<not> done_field fd \<and> error_field fd = []"
    and "concat chunks = concat (map sse_event payloads)"
  shows "deliveries parse (Response True status chunks EndOfStream) = map FrameDelivered objs @ [Completed]"
proof -
  have "butlast (split_nn (concat chunks)) = map (\<lambda>p. ''data: '' @ p) payloads"
    using assms(1,4) by (simp add: split_sse_events)
  then show ?thesis
    using fold_frames [OF assms(2,3), of "[]"]
    by (simp add: deliveries_def detectFireSmokeStreaming_def read_loop_unfold finish_def
        call_onComplete_def recording_def del: read_loop.simps)
qed

text \<open>
  Claim C1 (chunk-boundary invariance). However the text of the response body is cut
  into reads, also inside a payload or inside the separator, the decoder loop makes
  the same calls of the callbacks, in the same order, and leaves the caller in the same
  state as when the whole body arrives in a single read; in particular the recorded
  sequence of delivered objects is the same. And when the body is a sequence of events
  \<^verbatim>\<open>data: <json>\n\n\<close> whose payloads hold no line feed and parse to frame objects, the
  objects are delivered once each, in the order of the events, followed by the
  completion, whatever the cut.
\<close>

theorem chunk_boundary_invariance:
  "detectFireSmokeStreaming parse cb (Response True status chunks e) s =
     detectFireSmokeStreaming parse cb (Response True status [concat chunks] e) s
   \<and> deliveries parse (Response True status chunks e) =
     deliveries parse (Response True status [concat chunks] e)
   \<and> ((\<forall>p\<in>set payloads. CHR 0x0A \<notin> set p)
        \<and> map parse payloads = map Some objs
        \<and> (\<forall>fd\<in>set objs. \<not> done_field fd \<and> error_field fd = [])
        \<and> concat chunks = concat (map sse_event payloads) \<longrightarrow>
      deliveries parse (Response True status chunks EndOfStream) =
        map FrameDelivered objs @ [Completed])"
  using deliveries_encoded [of payloads parse objs chunks status]
  by (simp add: detectFireSmokeStreaming_def deliveries_def read_loop_concat [of _ _ chunks]
        del: read_loop.simps)

text \<open>The theorem on two frame events cut inside the first payload.\<close>

theorem chunk_boundary_invariance_witness:
  "CHR 0x0A \<notin> set payload_frame1 \<and> CHR 0x0A \<notin> set payload_frame2
   \<and> concat [take 30 two_frames_body, drop 30 two_frames_body]
       = concat (map sse_event [payload_frame1, payload_frame2])
   \<and> deliveries scenario_parse
        (Response True 200 [take 30 two_frames_body, drop 30 two_frames_body] EndOfStream)
       = [FrameDelivered (detection_frame 1 0 True [fire_detection (9 / 10)]),
          FrameDelivered (detection_frame 2 0 True [fire_detection (8 / 10)]),
          Completed]"
proof -
  let ?objs = "[detection_frame 1 0 True [fire_detection (9 / 10)],
                detection_frame 2 0 True [fire_detection (8 / 10)]]"
  have h1: "\<forall>p\<in>set [payload_frame1, payload_frame2]. CHR 0x0A \<notin> set p"
    by (simp add: no_nl)
  have h2: "map scenario_parse [payload_frame1, payload_frame2] = map Some ?objs"
    by (simp add: parse_payloads)
  have h3: "\<forall>fd\<in>set ?objs. \<not> done_field fd \<and> error_field fd = []"
    by (simp add: sentinel_fields)
  have h4: "concat [take 30 two_frames_body, drop 30 two_frames_body]
       = concat (map sse_event [payload_frame1, payload_frame2])"
  proof -
    have "concat [take 30 b, drop 30 b] = b" for b :: string by simp
    then show ?thesis by (simp only: two_frames_body_def list.map concat.simps append_Nil2)
  qed
  have c: "deliveries scenario_parse
        (Response True 200 [take 30 two_frames_body, drop 30 two_frames_body] EndOfStream)
       = map FrameDelivered ?objs @ [Completed]"
  proof (rule mp [OF chunk_boundary_invariance [where cb = recording and s = "[]"
          and e = EndOfStream and payloads = "[payload_frame1, payload_frame2]"
          and objs = ?objs, THEN conjunct2, THEN conjunct2]])
    from h1 h2 h3 h4
    show "(\<forall>p\<in>set [payload_frame1, payload_frame2]. CHR 0x0A \<notin> set p)
        \<and> map scenario_parse [payload_frame1, payload_frame2] = map Some ?objs
        \<and> (\<forall>fd\<in>set ?objs. \<not> done_field fd \<and> error_field fd = [])
        \<and> concat [take 30 two_frames_body, drop 30 two_frames_body]
            = concat (map sse_event [payload_frame1, payload_frame2])"
      by (intro conjI)
  qed
  have c': "map FrameDelivered ?objs @ [Completed] =
      [FrameDelivered (detection_frame 1 0 True [fire_detection (9 / 10)]),
       FrameDelivered (detection_frame 2 0 True [fire_detection (8 / 10)]),
       Completed]"
    by simp
  show ?thesis
    by (intro conjI) (rule no_nl(1), rule no_nl(2), rule h4, simp only: c c')
qed

text \<open>
  Claim C3 (terminal sentinels end iteration). The decoder parses the sentinels but
  leaves the loop for neither. A body made of the \<^verbatim>\<open>done\<close> sentinel alone completes
  twice, at the sentinel and at the end of the body; an event that follows a \<^verbatim>\<open>done\<close>
  or an \<^verbatim>\<open>error\<close> sentinel is still decoded and delivered; and a run that surfaced an
  error still completes at the end of the body.
\<close>

theorem sentinels_do_not_end_iteration:
  "deliveries scenario_parse (Response True 200 [sse_event payload_done] EndOfStream)
     = [Completed, Completed]
   \<and> deliveries scenario_parse
       (Response True 200 [sse_event payload_done @ sse_event payload_frame1] EndOfStream)
     = [Completed, FrameDelivered (detection_frame 1 0 True [fire_detection (9 / 10)]), Completed]
   \<and> deliveries scenario_parse
       (Response True 200 [sse_event payload_error @ sse_event payload_frame1] EndOfStream)
     = [ErrorSurfaced ''boom'', FrameDelivered (detection_frame 1 0 True [fire_detection (9 / 10)]),
        Completed]"
  by (simp add: deliveries_def detectFireSmokeStreaming_def read_loop_unfold finish_def
        split_sse no_nl split_sse [of _ "[]", simplified] process_event_data' parse_payloads
        sentinel_fields call_onComplete_def call_onError_def call_onFrameDetection_def recording_def
        del: read_loop.simps)

section \<open>Properties of the streaming path\<close>

lemma onFrame_no_fire: "\<not> fire_frame fd \<Longrightarrow> streaming_onFrameDetection pf f st fd r = r"
  by (auto simp: streaming_onFrameDetection_def fire_frame_def)

lemma onFrame_fire_total:
  "fire_frame fd \<Longrightarrow> totalFramesWithFire (streaming_onFrameDetection pf f st fd r) = totalFramesWithFire r + 1"
  by (simp add: streaming_onFrameDetection_def fire_frame_def Let_def emit_def)

lemma onFrame_perm:
  "notification_permission (app (streaming_onFrameDetection pf f st fd r)) = notification_permission (app r)"
  by (simp add: streaming_onFrameDetection_def fire_frame_def Let_def emit_def)

lemma onFrame_fire_effects:
  "fire_frame fd \<Longrightarrow>
   effects (app (streaming_onFrameDetection pf f False fd r)) =
     effects (app r) @ (if totalFramesWithFire r = 0 then first_fire_effects pf f (notification_permission (app r)) fd else [])"
  by (simp add: streaming_onFrameDetection_def fire_frame_def Let_def emit_def first_fire_effects_def)

lemma onFrame_fire_alerts:
  "fire_frame fd \<Longrightarrow>
   \<exists>al. alerts (app (streaming_onFrameDetection pf f False fd r)) = al # alerts (app r)
        \<and> frameNumber al = Some (frame fd)"
  by (simp add: streaming_onFrameDetection_def fire_frame_def Let_def emit_def)

lemma onFrame_stopped:
  "alerts (app (streaming_onFrameDetection pf f True fd r)) = alerts (app r)
   \<and> effects (app (streaming_onFrameDetection pf f True fd r)) = effects (app r)"
  by (simp add: streaming_onFrameDetection_def fire_frame_def Let_def emit_def)

lemma run_frames_Nil [simp]: "run_frames pf f st [] r = r"
  by (simp add: run_frames_def)

lemma run_frames_Cons [simp]:
  "run_frames pf f st (fd # fs) r = run_frames pf f st fs (streaming_onFrameDetection pf f st fd r)"
  by (simp add: run_frames_def)

lemma run_frames_append:
  "run_frames pf f st (xs @ ys) r = run_frames pf f st ys (run_frames pf f st xs r)"
  by (simp add: run_frames_def)

lemma run_frames_total:
  "totalFramesWithFire (run_frames pf f st fs r) = totalFramesWithFire r + length (filter fire_frame fs)"
proof (induction fs arbitrary: r)
  case (Cons fd fs)
  then show ?case by (cases "fire_frame fd") (simp_all add: onFrame_no_fire onFrame_fire_total)
qed simp

lemma run_frames_perm:
  "notification_permission (app (run_frames pf f st fs r)) = notification_permission (app r)"
  by (induction fs arbitrary: r) (simp_all add: onFrame_perm)

lemma run_frames_effects_later:
  "totalFramesWithFire r > 0 \<Longrightarrow> effects (app (run_frames pf f False fs r)) = effects (app r)"
proof (induction fs arbitrary: r)
  case (Cons fd fs)
  show ?case
  proof (cases "fire_frame fd")
    case True
    with Cons.prems have "effects (app (streaming_onFrameDetection pf f False fd r)) = effects (app r)"
      by (simp add: onFrame_fire_effects)
    moreover have "totalFramesWithFire (streaming_onFrameDetection pf f False fd r) > 0"
      using True by (simp add: onFrame_fire_total)
    ultimately show ?thesis using Cons.IH by simp
  next
    case False
    with Cons show ?thesis by (simp add: onFrame_no_fire)
  qed
qed simp

lemma run_frames_effects_fresh:
  "totalFramesWithFire r = 0 \<Longrightarrow>
   effects (app (run_frames pf f False fs r)) =
     effects (app r) @
     (case filter fire_frame fs of
        [] \<Rightarrow> []
      | fd # rest \<Rightarrow> first_fire_effects pf f (notification_permission (app r)) fd)"
proof (induction fs arbitrary: r)
  case (Cons fd fs)
  show ?case
  proof (cases "fire_frame fd")
    case True
    have "totalFramesWithFire (streaming_onFrameDetection pf f False fd r) > 0"
      using True by (simp add: onFrame_fire_total)
    then have "effects (app (run_frames pf f False (fd # fs) r)) =
        effects (app (streaming_onFrameDetection pf f False fd r))"
      by (simp add: run_frames_effects_later)
    with True Cons.prems show ?thesis by (simp add: onFrame_fire_effects)
  next
    case False
    with Cons show ?thesis by (simp add: onFrame_no_fire)
  qed
qed simp

lemma run_frames_alerts:
  "\<exists>new. alerts (app (run_frames pf f False fs r)) = new @ alerts (app r)
         \<and> map frameNumber new = rev (map (\<lambda>fd. Some (frame fd)) (filter fire_frame fs))"
proof (induction fs arbitrary: r)
  case Nil
  show ?case by simp
next
  case (Cons fd fs)
  show ?case
  proof (cases "fire_frame fd")
    case True
    then obtain al where al: "alerts (app (streaming_onFrameDetection pf f False fd r)) = al # alerts (app r)"
        "frameNumber al = Some (frame fd)"
      using onFrame_fire_alerts by blast
    from Cons.IH [of "streaming_onFrameDetection pf f False fd r"]
    obtain new where new: "alerts (app (run_frames pf f False fs (streaming_onFrameDetection pf f False fd r)))
          = new @ alerts (app (streaming_onFrameDetection pf f False fd r))"
        "map frameNumber new = rev (map (\<lambda>fd. Some (frame fd)) (filter fire_frame fs))"
      by blast
    have "alerts (app (run_frames pf f False (fd # fs) r)) = (new @ [al]) @ alerts (app r)"
      using new(1) al(1) by simp
    moreover have "map frameNumber (new @ [al]) = rev (map (\<lambda>fd. Some (frame fd)) (filter fire_frame (fd # fs)))"
      using new(2) al(2) True by simp
    ultimately show ?thesis by blast
  next
    case False
    with Cons.IH [of r] show ?thesis by (simp add: onFrame_no_fire)
  qed
qed

lemma run_frames_stopped:
  "alerts (app (run_frames pf f True fs r)) = alerts (app r)
   \<and> effects (app (run_frames pf f True fs r)) = effects (app r)"
  by (induction fs arbitrary: r) (simp_all add: onFrame_stopped)

text \<open>
  Claim C5 (first-fire throttle). In a fresh streaming run with emergency stop inactive
  whose fire frames (\<^verbatim>\<open>has_fire\<close> with detections) are exactly the frames 2, 5 and 9, in
  that order, \<^verbatim>\<open>playFireAlarm\<close> is called exactly once and the notification is shown at
  most once; both happen while frame 2 is processed (nothing is emitted before it, and
  nothing after it); and exactly three alerts are put in front of the ledger, one for
  each fire frame.
\<close>

theorem first_fire_throttle:
  assumes fires: "map frame (filter fire_frame fs) = [2, 5, 9]"
    and fresh: "totalFramesWithFire r0 = 0"
  shows "alarm_count (app (run_frames pf f False fs r0)) = alarm_count (app r0) + 1
    \<and> notification_count (app (run_frames pf f False fs r0)) \<le> notification_count (app r0) + 1
    \<and> (\<exists>a9 a5 a2. alerts (app (run_frames pf f False fs r0)) = a9 # a5 # a2 # alerts (app r0)
          \<and> frameNumber a9 = Some 9 \<and> frameNumber a5 = Some 5 \<and> frameNumber a2 = Some 2)
    \<and> (\<forall>pre fd post. fs = pre @ fd # post \<and> fire_frame fd \<and> frame fd = 2 \<longrightarrow>
          effects (app (run_frames pf f False pre r0)) = effects (app r0)
          \<and> effects (app (run_frames pf f False (pre @ [fd]) r0)) =
              effects (app (run_frames pf f False fs r0)))"
proof -
  let ?r = "run_frames pf f False fs r0"
  from fires obtain f2 rest where ff: "filter fire_frame fs = f2 # rest" and f2: "frame f2 = 2"
    by (cases "filter fire_frame fs") auto
  have eff: "effects (app ?r) = effects (app r0) @ first_fire_effects pf f (notification_permission (app r0)) f2"
    using run_frames_effects_fresh [OF fresh, of pf f fs] ff by simp
  have c1: "alarm_count (app ?r) = alarm_count (app r0) + 1"
    unfolding alarm_count_def eff by (simp add: first_fire_effects_def)
  have c2: "notification_count (app ?r) \<le> notification_count (app r0) + 1"
    unfolding notification_count_def eff by (simp add: first_fire_effects_def)
  obtain new where new: "alerts (app ?r) = new @ alerts (app r0)"
      "map frameNumber new = rev (map (\<lambda>fd. Some (frame fd)) (filter fire_frame fs))"
    using run_frames_alerts by blast
  have "map (\<lambda>fd. Some (frame fd)) (filter fire_frame fs) = map Some (map frame (filter fire_frame fs))"
    by simp
  with new(2) fires have "map frameNumber new = [Some 9, Some 5, Some 2]" by simp
  then obtain a9 a5 a2 where "new = [a9, a5, a2]" "frameNumber a9 = Some 9"
      "frameNumber a5 = Some 5" "frameNumber a2 = Some 2"
    by auto
  with new(1) have c3: "\<exists>a9 a5 a2. alerts (app ?r) = a9 # a5 # a2 # alerts (app r0)
          \<and> frameNumber a9 = Some 9 \<and> frameNumber a5 = Some 5 \<and> frameNumber a2 = Some 2"
    by simp
  have c4: "effects (app (run_frames pf f False pre r0)) = effects (app r0)
          \<and> effects (app (run_frames pf f False (pre @ [fd]) r0)) = effects (app ?r)"
    if split: "fs = pre @ fd # post" and fd: "fire_frame fd" "frame fd = 2" for pre fd post
  proof -
    have eq: "map frame (filter fire_frame pre) @ 2 # map frame (filter fire_frame post) = [2, 5, 9]"
      using fires split fd by simp
    have pre_none: "filter fire_frame pre = []"
    proof (rule ccontr)
      assume "filter fire_frame pre \<noteq> []"
      then obtain a l where "filter fire_frame pre = a # l"
        by (cases "filter fire_frame pre") auto
      with eq have "map frame l @ 2 # map frame (filter fire_frame post) = [5, 9]" by simp
      then have "(2::nat) \<in> set [5, 9]" by (metis in_set_conv_decomp)
      then show False by simp
    qed
    have e1: "effects (app (run_frames pf f False pre r0)) = effects (app r0)"
      using run_frames_effects_fresh [OF fresh, of pf f pre] pre_none by simp
    have "filter fire_frame (pre @ [fd]) = [fd]" using pre_none fd by simp
    then have e2: "effects (app (run_frames pf f False (pre @ [fd]) r0)) =
        effects (app r0) @ first_fire_effects pf f (notification_permission (app r0)) fd"
      using run_frames_effects_fresh [OF fresh, of pf f "pre @ [fd]"] by simp
    have "filter fire_frame fs = fd # filter fire_frame post"
      using split pre_none fd by simp
    with ff have "f2 = fd" by simp
    with e1 e2 eff show ?thesis by simp
  qed
  from c1 c2 c3 c4 show ?thesis by blast
qed

text \<open>The theorem at ten frames with fire in frames 2, 5 and 9.\<close>

theorem first_fire_throttle_witness:
  "map frame (filter fire_frame throttle_frames) = [2, 5, 9]
   \<and> totalFramesWithFire (new_run test_app) = 0
   \<and> alarm_count (app (run_frames test_platform test_video False throttle_frames (new_run test_app))) = 1
   \<and> notification_count (app (run_frames test_platform test_video False throttle_frames (new_run test_app))) \<le> 1
   \<and> length (alerts (app (run_frames test_platform test_video False throttle_frames (new_run test_app)))) = 3
   \<and> effects (app (run_frames test_platform test_video False
         [detection_frame 1 10 False []] (new_run test_app))) = []
   \<and> effects (app (run_frames test_platform test_video False
         ([detection_frame 1 10 False []] @ [detection_frame 2 10 True [fire_detection (9 / 10)]])
         (new_run test_app)))
       = effects (app (run_frames test_platform test_video False throttle_frames (new_run test_app)))"
proof -
  have h1: "map frame (filter fire_frame throttle_frames) = [2, 5, 9]"
    by (simp add: throttle_frames_def fire_frame_def detection_frame_def)
  have h2: "totalFramesWithFire (new_run test_app) = 0"
    by (simp add: new_run_def)
  have z: "alarm_count (app (new_run test_app)) = 0" "notification_count (app (new_run test_app)) = 0"
      "alerts (app (new_run test_app)) = []" "effects (app (new_run test_app)) = []"
    by (simp_all add: new_run_def test_app_def initial_state_def alarm_count_def notification_count_def)
  have cut: "throttle_frames = [detection_frame 1 10 False []]
      @ detection_frame 2 10 True [fire_detection (9 / 10)] # drop 2 throttle_frames"
    by (simp add: throttle_frames_def)
  have f2: "fire_frame (detection_frame 2 10 True [fire_detection (9 / 10)])"
      "frame (detection_frame 2 10 True [fire_detection (9 / 10)]) = 2"
    by (simp_all add: fire_frame_def detection_frame_def)
  note T = first_fire_throttle [OF h1 h2, of test_platform test_video]
  from T have a: "alarm_count (app (run_frames test_platform test_video False throttle_frames (new_run test_app))) = 1"
    using z by simp
  from T have b: "notification_count (app (run_frames test_platform test_video False throttle_frames (new_run test_app))) \<le> 1"
    using z by simp
  from T have c: "length (alerts (app (run_frames test_platform test_video False throttle_frames (new_run test_app)))) = 3"
    using z by auto
  from T have "\<forall>pre fd post. throttle_frames = pre @ fd # post \<and> fire_frame fd \<and> frame fd = 2 \<longrightarrow>
          effects (app (run_frames test_platform test_video False pre (new_run test_app))) = effects (app (new_run test_app))
          \<and> effects (app (run_frames test_platform test_video False (pre @ [fd]) (new_run test_app))) =
              effects (app (run_frames test_platform test_video False throttle_frames (new_run test_app)))"
    by blast
  with cut f2 have d: "effects (app (run_frames test_platform test_video False [detection_frame 1 10 False []] (new_run test_app)))
        = effects (app (new_run test_app))
      \<and> effects (app (run_frames test_platform test_video False
          ([detection_frame 1 10 False []] @ [detection_frame 2 10 True [fire_detection (9 / 10)]]) (new_run test_app)))
        = effects (app (run_frames test_platform test_video False throttle_frames (new_run test_app)))"
    by blast
  from h1 h2 a b c d z(4) show ?thesis by (simp only:) 
qed

lemma scenario_events:
  "butlast (split_nn scenario_body) =
     [''data: '' @ payload_frame1, ''data: '' @ payload_frame2, ''data: '' @ payload_done]"
  by (simp add: scenario_body_def split_sse no_nl split_sse [of _ "[]", simplified])

lemma scenario_run:
  "scenario_app =
     app (streaming_onComplete test_platform test_video
       (streaming_onComplete test_platform test_video
         (streaming_onFrameDetection test_platform test_video False
            (detection_frame 2 0 True [fire_detection (8 / 10)])
            (streaming_onFrameDetection test_platform test_video False
               (detection_frame 1 0 True [fire_detection (9 / 10)])
               (new_run ((handleFileSelect test_video test_app)\<lparr>isLoading := True, detectionResult := None\<rparr>))))))"
  by (simp add: scenario_app_def handleDetection_def handleFileSelect_def test_app_def initial_state_def
        test_video_def startsWith_def detectFireSmokeStreaming_def read_loop_unfold finish_def
        scenario_events process_event_data' parse_payloads sentinel_fields
        call_onComplete_def call_onError_def call_onFrameDetection_def streaming_callbacks_def
        del: read_loop.simps)

text \<open>
  Claim C4 (concrete streaming scenario). On the body that yields frame 1 (fire, confidence
  0.9), frame 2 (fire, confidence 0.8) and the \<^verbatim>\<open>done\<close> sentinel, the alarm is triggered once
  and two alerts are appended, but two history items are recorded, not one: the completion
  callback runs at the sentinel and again at the end of the body. Both items have
  \<^verbatim>\<open>detectionCount\<close> 2 and \<^verbatim>\<open>avgConfidence\<close> 17/20.
\<close>

theorem streaming_scenario:
  "alarm_count scenario_app = 1
   \<and> length (alerts scenario_app) = 2
   \<and> map item_details (detectionHistory scenario_app) =
       [StreamingDetails [fire_detection (9 / 10), fire_detection (8 / 10)] 2 2 (Some 1) (17 / 20),
        StreamingDetails [fire_detection (9 / 10), fire_detection (8 / 10)] 2 2 (Some 1) (17 / 20)]"
  unfolding scenario_run
  by (simp add: streaming_onComplete_def streaming_onFrameDetection_def new_run_def Let_def
        detection_frame_def fire_detection_def emit_def alarm_count_def not_set_def
        handleFileSelect_def test_app_def initial_state_def avg_confidence_def)

section \<open>Properties of the alarm engine\<close>

lemma add_voice_flag: "isPlaying (add_voice now e ft s) = isPlaying s"
  by (simp add: add_voice_def Let_def split: prod.splits)

lemma playGeneratedSiren_sets_flag: "isPlaying (playGeneratedSiren now d s)"
  by (simp add: playGeneratedSiren_def Let_def add_voice_flag)

lemma playFireAlarm_sets_flag: "isPlaying (playFireAlarm ok now d s)"
  by (cases ok) (simp_all add: playFireAlarm_def playMP3Alarm_def playMP3Alarm_start_def
      playMP3Alarm_settle_def playGeneratedSiren_sets_flag Let_def)

lemma playFireAlarm_noop: "isPlaying s \<Longrightarrow> playFireAlarm ok now d s = s"
  by (simp add: playFireAlarm_def)

lemma calls_noop: "isPlaying s \<Longrightarrow> fold call calls s = s"
  by (induction calls) (simp_all add: call_def playFireAlarm_noop split: prod.splits)

lemma stopAlarm_with_context:
  "audioContext s \<Longrightarrow> \<not> isPlaying (stopAlarm v now s) \<and> \<not> clip_active (stopAlarm v now s)"
  by (simp add: stopAlarm_def clip_active_def Let_def split: option.splits)

lemma stopAlarm_silences_clip: "\<not> clip_active (stopAlarm v now s)"
  by (simp add: stopAlarm_def clip_active_def Let_def split: option.splits)

lemma stopAlarm_stops_voices: "audioContext s \<Longrightarrow> \<not> voices_active (now + 100) (stopAlarm v now s)"
  by (simp add: stopAlarm_def voices_active_def Let_def list_ex_iff stop_oscillator_def split: option.splits)

lemma stopAlarm_idle:
  "\<not> clip_active s \<Longrightarrow> \<not> isPlaying s \<Longrightarrow> oscillators s = [] \<Longrightarrow> gainNodes s = [] \<Longrightarrow>
   stopAlarm v now s = s"
  by (auto simp: stopAlarm_def clip_active_def Let_def split: option.splits)

text \<open>
  Claim C6 (stopAlarm postcondition). After a clip was started on a fresh engine, which
  never creates an audio context, \<^verbatim>\<open>stopAlarm\<close> pauses the clip but returns before it
  clears the flag: \<^verbatim>\<open>isPlaying\<close> is still true afterwards, and every later
  \<^verbatim>\<open>playFireAlarm\<close> does nothing. (With an audio context the flag is cleared, lemma
  \<open>stopAlarm_with_context\<close>; on an idle engine the call changes nothing, lemma
  \<open>stopAlarm_idle\<close>.)
\<close>

theorem stopAlarm_keeps_flag_without_context:
  "clip_active (playFireAlarm True t d constructor)
   \<and> isPlaying (playFireAlarm True t d constructor)
   \<and> isPlaying (stopAlarm v now (playFireAlarm True t d constructor))
   \<and> playFireAlarm ok t' d' (stopAlarm v now (playFireAlarm True t d constructor))
       = stopAlarm v now (playFireAlarm True t d constructor)"
  by (simp add: playFireAlarm_def playMP3Alarm_def playMP3Alarm_start_def
      playMP3Alarm_settle_def constructor_def stopAlarm_def clip_active_def Let_def)

text \<open>
  Claim C7 (alarm mutual exclusion). A call of \<^verbatim>\<open>playFireAlarm\<close> while \<^verbatim>\<open>isPlaying\<close> is
  true returns the engine as it was: no clip is started and no oscillator is created. The
  flag is already set when the first call waits for the clip, so a call that arrives
  during the wait is such a call. Hence any number of calls made while the flag is set
  change nothing, and of any calls made on a fresh engine only the first starts a playback.
\<close>

theorem alarm_mutual_exclusion:
  "(isPlaying s \<longrightarrow> playFireAlarm ok now d s = s)
   \<and> isPlaying (playMP3Alarm_start s)
   \<and> (isPlaying s \<longrightarrow> fold call calls s = s)
   \<and> fold call (c # calls) constructor = call c constructor"
proof -
  have "isPlaying (call c constructor)"
    by (simp add: call_def playFireAlarm_sets_flag split: prod.splits)
  then have "fold call (c # calls) constructor = call c constructor"
    by (simp add: calls_noop)
  then show ?thesis
    by (simp add: playFireAlarm_noop calls_noop playMP3Alarm_start_def Let_def)
qed

text \<open>The theorem on an engine whose clip is playing.\<close>

theorem alarm_mutual_exclusion_witness:
  "isPlaying (playFireAlarm True 0 3000 constructor)
   \<and> playFireAlarm False 5 3000 (playFireAlarm True 0 3000 constructor)
       = playFireAlarm True 0 3000 constructor
   \<and> fold call [(False, 5, 3000), (True, 7, 2000)] (playFireAlarm True 0 3000 constructor)
       = playFireAlarm True 0 3000 constructor"
proof -
  have h: "isPlaying (playFireAlarm True 0 3000 constructor)"
    by (simp add: playFireAlarm_def playMP3Alarm_def playMP3Alarm_start_def
      playMP3Alarm_settle_def constructor_def Let_def)
  from alarm_mutual_exclusion [of "playFireAlarm True 0 3000 constructor" False 5 3000
      "[(False, 5, 3000), (True, 7, 2000)]"] h
  show ?thesis by simp
qed

section \<open>Properties of the emergency stop\<close>

lemma alarm_count_emit:
  "alarm_count (emit e a) = alarm_count a + (case e of PlayFireAlarm d \<Rightarrow> 1 | _ \<Rightarrow> 0)"
  by (cases e) (simp_all add: alarm_count_def emit_def)

text \<open>The gates that are there: streaming frames, single-shot results, live camera.\<close>

lemma gate_streaming_frame:
  "alerts (app (streaming_onFrameDetection pf f True fd r)) = alerts (app r)
   \<and> effects (app (streaming_onFrameDetection pf f True fd r)) = effects (app r)"
  by (simp add: streaming_onFrameDetection_def Let_def)

lemma streaming_history_recorded:
  "\<exists>item. detectionHistory (app (streaming_onComplete pf f r)) = item # detectionHistory (app r)"
  by (simp add: streaming_onComplete_def Let_def)

lemma gate_batch:
  "alerts (batch_detection pf f isFireSmoke True result a) = alerts a
   \<and> effects (batch_detection pf f isFireSmoke True result a) = effects a
   \<and> (\<exists>item. detectionHistory (batch_detection pf f isFireSmoke True result a)
         = item # detectionHistory a)"
  by (simp add: batch_detection_def Let_def)

lemma gate_live_camera: "onFireDetected pf True al a = a"
  by (simp add: onFireDetected_def)

lemma resume_live_camera:
  "alerts (onFireDetected pf (isEmergencyStop (handleResumeMonitoring a)) al (handleResumeMonitoring a))
     = al # alerts a"
  by (simp add: onFireDetected_def handleResumeMonitoring_def Let_def emit_def)

lemma resume_batch:
  "threatDetected isFireSmoke result \<Longrightarrow>
   \<exists>al. alerts (batch_detection pf f isFireSmoke False result a) = al # alerts a"
  by (simp add: batch_detection_def Let_def show_notification_or_ask_def emit_def)

text \<open>
  Claim C2 (emergency-stop gating). Streaming frames, single-shot results and live-camera
  detections are gated (the lemmas above), but satellite alerts are not: after an emergency
  stop, loading satellite alerts with a positive count still appends an alert and still
  calls \<^verbatim>\<open>playFireAlarm\<close>. And a live-camera detection that arrives while stopped records no
  history item.
\<close>

theorem satellite_alert_not_gated:
  "isEmergencyStop (handleEmergencyStop a)
   \<and> (\<exists>al. alerts (loadSatelliteAlerts pf (Inr (Suc n)) (handleEmergencyStop a)) = al # alerts a)
   \<and> alarm_count (loadSatelliteAlerts pf (Inr (Suc n)) (handleEmergencyStop a)) = alarm_count a + 1
   \<and> detectionHistory
        (onFireDetected pf (isEmergencyStop (handleEmergencyStop a)) al' (handleEmergencyStop a))
       = detectionHistory (handleEmergencyStop a)"
  by (simp add: handleSatelliteFireDetected_def handleEmergencyStop_def loadSatelliteAlerts_def
      onFireDetected_def Let_def emit_def alarm_count_def)

section \<open>Properties of persistence\<close>

lemma persist_fields [simp]:
  "alerts (persist pf a) = alerts a" "detectionHistory (persist pf a) = detectionHistory a"
  by (simp_all add: persist_def)








section \<open>Properties of the camera component\<close>

lemma capture_stats_cases:
  "camera_stats (fst (captureAndDetect fixed1 env w)) = camera_stats w
   \<or> (\<exists>r. reply env = Inr r \<and>
         camera_stats (fst (captureAndDetect fixed1 env w)) =
           \<lparr> framesProcessed = framesProcessed (camera_stats w) + 1,
             fireDetections = (if frame_has_fire r then fireDetections (camera_stats w) + 1
                               else fireDetections (camera_stats w)),
             lastDetection = (if frame_has_fire r then Some (time_text env)
                              else lastDetection (camera_stats w)),
             fps = fps (camera_stats w) \<rparr>)"
  by (auto simp: captureAndDetect_def Let_def split: sum.splits option.splits)

lemma capture_failed_unchanged:
  "reply env = Inl err \<Longrightarrow> fst (captureAndDetect fixed1 env w) = w"
  by (simp add: captureAndDetect_def Let_def)

lemma step_stats_cases:
  "camera_stats (webcam_step valid enc fixed1 ev w) = (camera_stats w)\<lparr>fps := fps (camera_stats (webcam_step valid enc fixed1 ev w))\<rparr>
   \<or> (\<exists>env. ev = CaptureTick env \<and> camera_stats (webcam_step valid enc fixed1 ev w) = camera_stats (fst (captureAndDetect fixed1 env w)))"
  by (cases ev)
     (auto simp: setCameraMode_def startWebcam_def startNetworkCamera_def image_loaded_def
        image_failed_def markup_onError_def refresh_tick_def stopCamera_def startMonitoring_def
        stopMonitoring_def set_src_def Let_def
        split: option.splits onload_handler.splits onerror_handler.splits refresher.splits)

lemma capture_monotone:
  "framesProcessed (camera_stats w) \<le> framesProcessed (camera_stats (fst (captureAndDetect fixed1 env w)))
   \<and> fireDetections (camera_stats w) \<le> fireDetections (camera_stats (fst (captureAndDetect fixed1 env w)))"
  using capture_stats_cases [of fixed1 env w] by auto

lemma capture_bound:
  "fireDetections (camera_stats w) \<le> framesProcessed (camera_stats w) \<Longrightarrow>
   fireDetections (camera_stats (fst (captureAndDetect fixed1 env w)))
     \<le> framesProcessed (camera_stats (fst (captureAndDetect fixed1 env w)))"
  using capture_stats_cases [of fixed1 env w] by auto

lemma step_monotone:
  "framesProcessed (camera_stats w) \<le> framesProcessed (camera_stats (webcam_step valid enc fixed1 ev w))
   \<and> fireDetections (camera_stats w) \<le> fireDetections (camera_stats (webcam_step valid enc fixed1 ev w))"
proof -
  from step_stats_cases [of valid enc fixed1 ev w] show ?thesis
  proof
    assume e: "camera_stats (webcam_step valid enc fixed1 ev w) =
      (camera_stats w)\<lparr>fps := fps (camera_stats (webcam_step valid enc fixed1 ev w))\<rparr>"
    show ?thesis by (subst e, subst (2) e) simp
  next
    assume "\<exists>env. ev = CaptureTick env \<and> camera_stats (webcam_step valid enc fixed1 ev w) =
      camera_stats (fst (captureAndDetect fixed1 env w))"
    then show ?thesis using capture_monotone by metis
  qed
qed

lemma step_bound:
  assumes "fireDetections (camera_stats w) \<le> framesProcessed (camera_stats w)"
  shows "fireDetections (camera_stats (webcam_step valid enc fixed1 ev w))
     \<le> framesProcessed (camera_stats (webcam_step valid enc fixed1 ev w))"
proof -
  from step_stats_cases [of valid enc fixed1 ev w] show ?thesis
  proof
    assume e: "camera_stats (webcam_step valid enc fixed1 ev w) =
      (camera_stats w)\<lparr>fps := fps (camera_stats (webcam_step valid enc fixed1 ev w))\<rparr>"
    show ?thesis using assms by (subst e, subst (2) e) simp
  next
    assume "\<exists>env. ev = CaptureTick env \<and> camera_stats (webcam_step valid enc fixed1 ev w) =
      camera_stats (fst (captureAndDetect fixed1 env w))"
    then show ?thesis using capture_bound [OF assms] by metis
  qed
qed

lemma run_monotone:
  "framesProcessed (camera_stats w) \<le> framesProcessed (camera_stats (webcam_run valid enc fixed1 evs w))
   \<and> fireDetections (camera_stats w) \<le> fireDetections (camera_stats (webcam_run valid enc fixed1 evs w))"
proof (induction evs arbitrary: w)
  case Nil
  show ?case by (simp add: webcam_run_def)
next
  case (Cons ev evs)
  from step_monotone [of w valid enc fixed1 ev] Cons.IH [of "webcam_step valid enc fixed1 ev w"]
  show ?case by (auto simp: webcam_run_def)
qed

lemma run_bound:
  "fireDetections (camera_stats w) \<le> framesProcessed (camera_stats w) \<Longrightarrow>
   fireDetections (camera_stats (webcam_run valid enc fixed1 evs w))
     \<le> framesProcessed (camera_stats (webcam_run valid enc fixed1 evs w))"
proof (induction evs arbitrary: w)
  case Nil
  then show ?case by (simp add: webcam_run_def)
next
  case (Cons ev evs)
  from Cons.IH [OF step_bound [OF Cons.prems, of valid enc fixed1 ev]]
  show ?case by (simp add: webcam_run_def)
qed

text \<open>
  Claim C10 (capture-loop statistics). Over every sequence of events of the component the
  two counters never decrease, and from the initial state \<^verbatim>\<open>fireDetections\<close> never exceeds
  \<^verbatim>\<open>framesProcessed\<close>. A tick whose request fails leaves the component as it was; the
  statistics change only on a tick whose request succeeded; and \<^verbatim>\<open>lastDetection\<close> changes
  only on a capture tick whose result has \<^verbatim>\<open>has_fire\<close>.
\<close>

theorem capture_statistics:
  "framesProcessed (camera_stats w) \<le> framesProcessed (camera_stats (webcam_run valid enc fixed1 evs w))
   \<and> fireDetections (camera_stats w) \<le> fireDetections (camera_stats (webcam_run valid enc fixed1 evs w))
   \<and> fireDetections (camera_stats (webcam_run valid enc fixed1 evs initial_webcam))
       \<le> framesProcessed (camera_stats (webcam_run valid enc fixed1 evs initial_webcam))
   \<and> (\<forall>err. reply env = Inl err \<longrightarrow> fst (captureAndDetect fixed1 env w) = w)
   \<and> (camera_stats (fst (captureAndDetect fixed1 env w)) \<noteq> camera_stats w \<longrightarrow>
        (\<exists>r. reply env = Inr r))
   \<and> (lastDetection (camera_stats (fst (captureAndDetect fixed1 env w))) \<noteq> lastDetection (camera_stats w) \<longrightarrow>
        (\<exists>r. reply env = Inr r \<and> frame_has_fire r))
   \<and> (\<forall>ev. lastDetection (camera_stats (webcam_step valid enc fixed1 ev w)) \<noteq> lastDetection (camera_stats w) \<longrightarrow>
        (\<exists>env' r. ev = CaptureTick env' \<and> reply env' = Inr r \<and> frame_has_fire r))"
proof -
  have b0: "fireDetections (camera_stats initial_webcam) \<le> framesProcessed (camera_stats initial_webcam)"
    by (simp add: initial_webcam_def)
  have c5: "camera_stats (fst (captureAndDetect fixed1 env w)) \<noteq> camera_stats w \<longrightarrow> (\<exists>r. reply env = Inr r)"
    using capture_stats_cases [of fixed1 env w] by auto
  have c6: "lastDetection (camera_stats (fst (captureAndDetect fixed1 env' w))) \<noteq> lastDetection (camera_stats w) \<longrightarrow>
        (\<exists>r. reply env' = Inr r \<and> frame_has_fire r)" for env'
    using capture_stats_cases [of fixed1 env' w] by (auto split: if_splits)
  have c7: "\<exists>env' r. ev = CaptureTick env' \<and> reply env' = Inr r \<and> frame_has_fire r"
    if ch: "lastDetection (camera_stats (webcam_step valid enc fixed1 ev w)) \<noteq> lastDetection (camera_stats w)" for ev
  proof -
    from step_stats_cases [of valid enc fixed1 ev w] show ?thesis
    proof
      assume e: "camera_stats (webcam_step valid enc fixed1 ev w) =
        (camera_stats w)\<lparr>fps := fps (camera_stats (webcam_step valid enc fixed1 ev w))\<rparr>"
      have "lastDetection (camera_stats (webcam_step valid enc fixed1 ev w)) = lastDetection (camera_stats w)"
        by (subst e) simp
      with ch show ?thesis by simp
    next
      assume "\<exists>env. ev = CaptureTick env \<and> camera_stats (webcam_step valid enc fixed1 ev w) =
        camera_stats (fst (captureAndDetect fixed1 env w))"
      then obtain env' where ev: "ev = CaptureTick env'"
        and st: "camera_stats (webcam_step valid enc fixed1 ev w) = camera_stats (fst (captureAndDetect fixed1 env' w))"
        by blast
      from ch st c6 [of env'] obtain r where "reply env' = Inr r" "frame_has_fire r" by auto
      with ev show ?thesis by blast
    qed
  qed
  from run_monotone [of w valid enc fixed1 evs] run_bound [OF b0, of valid enc fixed1 evs]
    capture_failed_unchanged [of env _ fixed1 w] c5 c6 [of env] c7
  show ?thesis by blast
qed

lemma refresh_direct:
  "refreshIntervalRef w = Some (DirectRefresh u) \<Longrightarrow> imgRef w \<Longrightarrow>
   requests (fold refresh_tick ts w) = requests w @ map (\<lambda>t. u @ ''?t='' @ t) ts
   \<and> img_onload (fold refresh_tick ts w) = img_onload w"
proof (induction ts arbitrary: w)
  case (Cons t ts)
  let ?w = "refresh_tick t w"
  have "refreshIntervalRef ?w = Some (DirectRefresh u)" "imgRef ?w" "requests ?w = requests w @ [u @ ''?t='' @ t]"
     "img_onload ?w = img_onload w"
    using Cons.prems by (simp_all add: refresh_tick_def set_src_def imgRef_def)
  with Cons.IH [of ?w] show ?case by simp
qed simp

lemma refresh_proxy:
  "refreshIntervalRef w = Some (ProxyRefresh u captured) \<Longrightarrow> imgRef w \<Longrightarrow>
   requests (fold refresh_tick ts w) =
     requests w @ (if captured then map (\<lambda>t. u @ ''&t='' @ t) ts else [])"
proof (induction ts arbitrary: w)
  case (Cons t ts)
  let ?w = "refresh_tick t w"
  have "refreshIntervalRef ?w = Some (ProxyRefresh u captured)" "imgRef ?w"
     "requests ?w = requests w @ (if captured then [u @ ''&t='' @ t] else [])"
    using Cons.prems by (simp_all add: refresh_tick_def set_src_def imgRef_def)
  with Cons.IH [of ?w] show ?case by simp
qed simp

text \<open>
  Claim C9 (network-camera connection fallback). A connection attempt with a valid address,
  on a mounted image element and with no refresh timer running, first requests the proxy
  address. If that load succeeds, no direct request follows: the timer only ever asks the
  proxy. If it fails, the direct snapshot address is requested once; a second failure makes
  no further attempt and leaves the camera disconnected; and once the direct load succeeds,
  every later firing of the timer requests the direct address with its cache-buster.
\<close>

theorem network_camera_fallback:
  assumes url: "networkCameraUrl w \<noteq> []" "valid (networkCameraUrl w)"
    and img: "imgRef w"
    and timer: "refreshIntervalRef w = None"
  shows "let snap = snapshot_url (networkCameraUrl w);
             prox = proxy_url enc snap;
             w1 = startNetworkCamera valid enc w
         in requests w1 = requests w @ [prox]
          \<and> requests (fold refresh_tick ts (image_loaded w1)) =
              requests w1 @ (if hasPermission w then map (\<lambda>t. prox @ ''&t='' @ t) ts else [])
          \<and> requests (image_failed w1) = requests w1 @ [snap]
          \<and> requests (image_failed (image_failed w1)) = requests w1 @ [snap]
          \<and> \<not> hasPermission (image_failed (image_failed w1))
          \<and> requests (fold refresh_tick ts (image_loaded (image_failed w1))) =
              requests w1 @ [snap] @ map (\<lambda>t. snap @ ''?t='' @ t) ts"
proof -
  let ?snap = "snapshot_url (networkCameraUrl w)"
  let ?prox = "proxy_url enc ?snap"
  let ?w1 = "startNetworkCamera valid enc w"
  have w1: "?w1 = set_src ?prox (w\<lparr>img_onload := Some (ProxyLoaded ?prox (hasPermission w)),
                   img_onerror := Some (ProxyFailed ?snap False)\<rparr>)"
    using url img by (simp add: startNetworkCamera_def Let_def)
  have r1: "requests ?w1 = requests w @ [?prox]"
    unfolding w1 by (simp add: set_src_def)
  have img1: "imgRef ?w1" "refreshIntervalRef ?w1 = None"
    unfolding w1 using img timer by (simp_all add: set_src_def imgRef_def)
  have l1: "refreshIntervalRef (image_loaded ?w1) = Some (ProxyRefresh ?prox (hasPermission w))"
      "imgRef (image_loaded ?w1)" "requests (image_loaded ?w1) = requests ?w1"
    unfolding w1 using img timer by (simp_all add: image_loaded_def set_src_def imgRef_def Let_def)
  have r2: "requests (fold refresh_tick ts (image_loaded ?w1)) =
      requests ?w1 @ (if hasPermission w then map (\<lambda>t. ?prox @ ''&t='' @ t) ts else [])"
    using refresh_proxy [OF l1(1) l1(2), of ts] l1(3) by simp
  let ?w2 = "image_failed ?w1"
  have f1: "requests ?w2 = requests ?w1 @ [?snap]" "img_onerror ?w2 = Some (DirectFailed ?snap)"
      "img_onload ?w2 = Some (DirectLoaded ?snap)" "refreshIntervalRef ?w2 = None" "imgRef ?w2"
    unfolding w1 using img timer
    by (simp_all add: image_failed_def markup_onError_def set_src_def imgRef_def Let_def)
  have f2: "requests (image_failed ?w2) = requests ?w1 @ [?snap]" "\<not> hasPermission (image_failed ?w2)"
    using f1 by (simp_all add: image_failed_def [of ?w2] markup_onError_def Let_def)
  have d1: "refreshIntervalRef (image_loaded ?w2) = Some (DirectRefresh ?snap)"
      "imgRef (image_loaded ?w2)" "requests (image_loaded ?w2) = requests ?w2"
    using f1 by (simp_all add: image_loaded_def [of ?w2] imgRef_def Let_def)
  have r5: "requests (fold refresh_tick ts (image_loaded ?w2)) =
      requests ?w1 @ [?snap] @ map (\<lambda>t. ?snap @ ''?t='' @ t) ts"
    using refresh_direct [OF d1(1) d1(2), of ts] d1(3) f1(1) by simp
  from r1 r2 f1(1) f2 r5 show ?thesis by (simp add: Let_def)
qed

lemma snapshot_example: "snapshot_url ''http://192.168.1.100:8080'' = ''http://192.168.1.100:8080/shot.jpg''"
  by (simp add: snapshot_url_def endsWith_def)

text \<open>The theorem for the camera at \<^verbatim>\<open>http://192.168.1.100:8080\<close>: proxy fails, direct loads, two polls.\<close>

theorem network_camera_fallback_witness:
  "networkCameraUrl network_webcam \<noteq> [] \<and> imgRef network_webcam
   \<and> refreshIntervalRef network_webcam = None
   \<and> requests (fold refresh_tick [''1'', ''2'']
         (image_loaded (image_failed (startNetworkCamera (\<lambda>u. True) (\<lambda>u. u) network_webcam))))
       = [''http://localhost:8000/proxy/camera?url=http://192.168.1.100:8080/shot.jpg'',
          ''http://192.168.1.100:8080/shot.jpg'',
          ''http://192.168.1.100:8080/shot.jpg?t=1'',
          ''http://192.168.1.100:8080/shot.jpg?t=2'']"
proof -
  have h: "networkCameraUrl network_webcam \<noteq> []" "(\<lambda>u. True) (networkCameraUrl network_webcam)"
      "imgRef network_webcam" "refreshIntervalRef network_webcam = None"
    by (simp_all add: network_webcam_def initial_webcam_def imgRef_def)
  have u: "networkCameraUrl network_webcam = ''http://192.168.1.100:8080''"
      "requests network_webcam = []"
    by (simp_all add: network_webcam_def initial_webcam_def)
  from network_camera_fallback [OF h, of "\<lambda>u. u" "[''1'', ''2'']"] h
  show ?thesis by (simp add: Let_def u snapshot_example proxy_url_def)
qed

text \<open>The theorem on a monitoring local camera: a tick with fire, and a tick whose request fails.\<close>

theorem capture_statistics_witness:
  "reply failing_env = Inl ''Network Error''
   \<and> fst (captureAndDetect (\<lambda>q. ''90.0'') failing_env monitoring_webcam) = monitoring_webcam
   \<and> lastDetection (camera_stats (fst (captureAndDetect (\<lambda>q. ''90.0'') fire_env monitoring_webcam)))
       \<noteq> lastDetection (camera_stats monitoring_webcam)
   \<and> (\<exists>r. reply fire_env = Inr r \<and> frame_has_fire r)
   \<and> fireDetections (camera_stats (webcam_run (\<lambda>u. True) (\<lambda>u. u) (\<lambda>q. ''90.0'')
         [StartMonitoringClicked True, CaptureTick fire_env, CaptureTick failing_env] initial_webcam))
       \<le> framesProcessed (camera_stats (webcam_run (\<lambda>u. True) (\<lambda>u. u) (\<lambda>q. ''90.0'')
         [StartMonitoringClicked True, CaptureTick fire_env, CaptureTick failing_env] initial_webcam))"
proof -
  have h1: "reply failing_env = Inl ''Network Error''"
    by (simp add: failing_env_def)
  have m: "canvasRef monitoring_webcam" "videoRef monitoring_webcam" "cameraMode monitoring_webcam = LocalCamera"
     "lastDetection (camera_stats monitoring_webcam) = None"
    by (simp_all add: monitoring_webcam_def startMonitoring_def startWebcam_def initial_webcam_def
        videoRef_def canvasRef_def Let_def)
  have h2: "lastDetection (camera_stats (fst (captureAndDetect (\<lambda>q. ''90.0'') fire_env monitoring_webcam)))
       \<noteq> lastDetection (camera_stats monitoring_webcam)"
    using m by (simp add: captureAndDetect_def fire_env_def Let_def)
  from capture_statistics [of initial_webcam "\<lambda>u. True" "\<lambda>u. u" "\<lambda>q. ''90.0''"
      "[StartMonitoringClicked True, CaptureTick fire_env, CaptureTick failing_env]" failing_env]
    capture_statistics [of monitoring_webcam "\<lambda>u. True" "\<lambda>u. u" "\<lambda>q. ''90.0''" "[]" failing_env]
    capture_statistics [of monitoring_webcam "\<lambda>u. True" "\<lambda>u. u" "\<lambda>q. ''90.0''" "[]" fire_env]
    h1 h2
  show ?thesis by blast
qed

end
